theory Spec2Isabelle
  imports Complex_Main
begin

section \<open>Python values\<close>

text \<open>
  A Python float is a finite value, one of the two infinities, or NaN. Finite values are
  taken as reals: rounding and overflow of the IEEE formats are abstracted, the special
  values and their comparison rules are kept (every comparison with NaN is false, and
  the sum of the two infinities is NaN).
\<close>

datatype pyfloat = NaN | NInf | Fin real | PInf

fun fadd :: "pyfloat \<Rightarrow> pyfloat \<Rightarrow> pyfloat" where
  "fadd NaN y = NaN"
| "fadd x NaN = NaN"
| "fadd PInf NInf = NaN"
| "fadd NInf PInf = NaN"
| "fadd PInf y = PInf"
| "fadd x PInf = PInf"
| "fadd NInf y = NInf"
| "fadd x NInf = NInf"
| "fadd (Fin a) (Fin b) = Fin (a + b)"

fun flt :: "pyfloat \<Rightarrow> pyfloat \<Rightarrow> bool" where
  "flt NaN y = False"
| "flt x NaN = False"
| "flt x NInf = False"
| "flt NInf y = True"
| "flt PInf y = False"
| "flt (Fin a) PInf = True"
| "flt (Fin a) (Fin b) = (a < b)"

text \<open>Division of a float by a positive integer; the caller checks the divisor.\<close>

fun fdiv :: "pyfloat \<Rightarrow> nat \<Rightarrow> pyfloat" where
  "fdiv (Fin a) n = Fin (a / real n)"
| "fdiv x n = x"

datatype error = ValueError string | ZeroDivisionError | UnboundLocalError

text \<open>
  \<open>x / n\<close> for a Python number \<open>x\<close> and an integer count \<open>n\<close>: a zero divisor
  raises.
\<close>

definition py_truediv :: "pyfloat \<Rightarrow> nat \<Rightarrow> error + pyfloat" where
  "py_truediv x n = (if n = 0 then Inl ZeroDivisionError else Inr (fdiv x n))"

text \<open>
  Modelled from the spec: \<open>check_loss_nan\<close> of the module \<open>utils\<close>, which is not among
  the sources. The spec has it inspect the scalar of a loss for a NaN value. It is
  applied both to loss tensors (through their scalar) and to Python floats.
\<close>

definition check_loss_nan :: "pyfloat \<Rightarrow> bool" where
  "check_loss_nan x = (x = NaN)"

section \<open>Tensors, gradients and optimizers\<close>

text \<open>
  A network parameter is identified by a number and holds a real weight. A tensor that
  takes part in automatic differentiation carries the leaves of its computation graph:
  the parameters that \<open>backward\<close> would reach from it. \<open>detach\<close> keeps the data and cuts
  the graph. A loss tensor carries its scalar (\<open>item\<close>) and, for each leaf, the
  derivative that \<open>backward\<close> adds to that parameter's gradient buffer.
\<close>

type_synonym pid = nat

record 'a tensor =
  tdata :: 'a
  leaves :: "pid list"

record loss_tensor =
  item :: pyfloat
  graph :: "pid list"
  grad_wrt :: "pid \<Rightarrow> real"

definition detach :: "'a tensor \<Rightarrow> 'a tensor" where
  "detach t = t\<lparr>leaves := []\<rparr>"

definition loss_add :: "loss_tensor \<Rightarrow> loss_tensor \<Rightarrow> loss_tensor" where
  "loss_add a b =
     \<lparr>item = fadd (item a) (item b),
      graph = graph a @ graph b,
      grad_wrt = (\<lambda>p. (if p \<in> set (graph a) then grad_wrt a p else 0)
                     + (if p \<in> set (graph b) then grad_wrt b p else 0))\<rparr>"

text \<open>
  The model object: the parameter lists of its two sub-networks
  (\<open>model.generator.parameters()\<close>, \<open>model.discriminator.parameters()\<close>), the weights,
  the gradient buffers (\<open>None\<close> when unset) and the train/eval mode flag.
\<close>

record gan_model =
  generator_parameters :: "pid list"
  discriminator_parameters :: "pid list"
  weights :: "pid \<Rightarrow> real"
  grads :: "pid \<Rightarrow> real option"
  training :: bool

text \<open>An Adam optimizer over a list of parameters, with its per-parameter state.\<close>

record 'o optimizer =
  param_ids :: "pid list"
  lr :: real
  betas :: "real \<times> real"
  opt_state :: "pid \<Rightarrow> 'o"

text \<open>
  What the trainer takes from its collaborators, none of which is among the sources: the
  forward passes of the two sub-networks, the two loss functions with their derivatives,
  the label constructors, the numeric Adam update, the metrics computer, the casts of a
  batch to the device and to float32, the data loaders, the progress bar's own
  refreshes and whether the bars are disabled. \<open>'x\<close> is an image batch, \<open>'m\<close> a mask
  batch, \<open>'s\<close> a score tensor, \<open>'o\<close> the optimizer's state for one parameter and \<open>'r\<close>
  the state of the world outside the trainer (random generators, clock, module buffers),
  which the forward passes, the shuffling loader and the progress bar read and advance.
  Both bars are built without a \<open>disable\<close> argument, so \<open>tqdm\<close> takes its default,
  which the environment variable \<open>TQDM_DISABLE\<close> overrides: \<open>tqdm_disable\<close> is the
  setting in force.
\<close>

record ('x, 'm, 's, 'o, 'r) library =
  gen_forward :: "bool \<Rightarrow> real list \<Rightarrow> 'r \<Rightarrow> 'x \<Rightarrow> 'm \<times> 'r"
  disc_forward :: "bool \<Rightarrow> real list \<Rightarrow> 'r \<Rightarrow> 'x \<Rightarrow> 'm \<Rightarrow> 's \<times> 'r"
  combined_loss :: "'m \<Rightarrow> 'm \<Rightarrow> pyfloat"
  combined_loss_grad :: "'m \<Rightarrow> 'm \<Rightarrow> pid \<Rightarrow> real"
  bce_loss :: "'s \<Rightarrow> 's \<Rightarrow> pyfloat"
  bce_loss_grad :: "'s \<Rightarrow> 's \<Rightarrow> pid \<Rightarrow> real"
  ones_like :: "'s \<Rightarrow> 's"
  zeros_like :: "'s \<Rightarrow> 's"
  mul_scalar :: "'s \<Rightarrow> real \<Rightarrow> 's"
  adam_update :: "real \<Rightarrow> real \<times> real \<Rightarrow> 'o \<Rightarrow> real \<Rightarrow> real \<Rightarrow> real \<times> 'o"
  segmentation_metrics :: "'m \<Rightarrow> 'm \<Rightarrow> (string \<times> pyfloat) list"
  to_float32_x :: "'x \<Rightarrow> 'x"
  to_float32_m :: "'m \<Rightarrow> 'm"
  train_batches :: "'r \<Rightarrow> ('x \<times> 'm) list \<times> 'r"
  val_batches :: "('x \<times> 'm) list"
  tqdm_refresh :: "'r \<Rightarrow> nat \<times> 'r"
  tqdm_disable :: bool

text \<open>\<open>optimizer.zero_grad()\<close>: the gradient buffers of the optimizer's parameters are unset.\<close>

definition zero_grad :: "'o optimizer \<Rightarrow> gan_model \<Rightarrow> gan_model" where
  "zero_grad opt m =
     m\<lparr>grads := (\<lambda>p. if p \<in> set (param_ids opt) then None else grads m p)\<rparr>"

text \<open>
  \<open>loss.backward()\<close>: each leaf of the loss's graph has the derivative accumulated into
  its gradient buffer; no other buffer is touched.
\<close>

definition backward :: "loss_tensor \<Rightarrow> gan_model \<Rightarrow> gan_model" where
  "backward l m =
     m\<lparr>grads := (\<lambda>p. if p \<in> set (graph l)
                      then Some (case grads m p of None \<Rightarrow> grad_wrt l p
                                 | Some g \<Rightarrow> g + grad_wrt l p)
                      else grads m p)\<rparr>"

text \<open>
  \<open>optimizer.step()\<close>: each parameter of the optimizer that has a gradient is updated,
  together with the optimizer's state for it; a parameter without gradient is skipped.
\<close>

definition step_param ::
  "('x, 'm, 's, 'o, 'r) library \<Rightarrow> pid \<Rightarrow> 'o optimizer \<times> gan_model \<Rightarrow> 'o optimizer \<times> gan_model"
where
  "step_param env p om =
     (case grads (snd om) p of
        None \<Rightarrow> om
      | Some g \<Rightarrow>
          (let r = adam_update env (lr (fst om)) (betas (fst om))
                     (opt_state (fst om) p) (weights (snd om) p) g
           in ((fst om)\<lparr>opt_state := (opt_state (fst om))(p := snd r)\<rparr>,
               (snd om)\<lparr>weights := (weights (snd om))(p := fst r)\<rparr>)))"

definition optimizer_step ::
  "('x, 'm, 's, 'o, 'r) library \<Rightarrow> 'o optimizer \<Rightarrow> gan_model \<Rightarrow> 'o optimizer \<times> gan_model"
where
  "optimizer_step env opt m = fold (step_param env) (param_ids opt) (opt, m)"

section \<open>The trainer's state\<close>

record config =
  device :: string
  batch_size :: int
  num_epochs :: int
  lr_generator :: real
  lr_discriminator :: real
  beta1 :: real
  beta2 :: real
  lr_decay_step :: int
  lr_decay_gamma :: real
  checkpoint_dir :: string

text \<open>The dictionaries with the six fixed metric keys, and validation's with \<open>val_loss\<close> added.\<close>

record metrics6 =
  mean_iou :: pyfloat
  recall :: pyfloat
  precision :: pyfloat
  accuracy :: pyfloat
  dice :: pyfloat
  f2 :: pyfloat

record val_logs =
  val_loss :: pyfloat
  val_metrics :: metrics6

text \<open>A step-decay scheduler bound to one optimizer.\<close>

record scheduler =
  step_size :: int
  gamma :: real
  last_epoch :: int

datatype log_record =
    Log_info string
  | Log_error string
  | Log_epoch int int pyfloat pyfloat pyfloat val_logs

datatype postfix = Train_postfix pyfloat pyfloat metrics6 | Val_postfix val_logs

datatype cell = Cell_str string | Cell_int int | Cell_float pyfloat | Cell_blank

text \<open>
  The trainer object, followed by what it leaves outside itself: the state of the world,
  the records sent to the logger, the rows of the metrics file, the checkpoint writes
  (path and weights, in order) and the postfixes shown on the progress bars.
\<close>

record ('o, 'r) trainer =
  config :: config
  model :: gan_model
  names :: "string option"
  optimizer_G :: "'o option optimizer"
  optimizer_D :: "'o option optimizer"
  scheduler_G :: scheduler
  scheduler_D :: scheduler
  best_val_loss :: pyfloat
  log_dir :: "string option"
  weights_dir :: "string option"
  csv_file :: string
  csv_fields :: "string list"
  world :: 'r
  logger :: "log_record list"
  csv_rows :: "cell list list"
  saved :: "(string \<times> (pid \<Rightarrow> real)) list"
  progress :: "postfix list"

definition logger_error :: "string \<Rightarrow> ('o, 'r) trainer \<Rightarrow> ('o, 'r) trainer" where
  "logger_error msg s = s\<lparr>logger := logger s @ [Log_error msg]\<rparr>"

definition logger_info :: "string \<Rightarrow> ('o, 'r) trainer \<Rightarrow> ('o, 'r) trainer" where
  "logger_info msg s = s\<lparr>logger := logger s @ [Log_info msg]\<rparr>"

section \<open>The model's forward passes and the loss functions\<close>

text \<open>
  Modelled from the spec: \<open>generate(image) -> mask\<close> of the model class, which is not
  among the sources. The generator sub-network maps the image batch to a mask under the
  current weights of its own parameters; with gradients enabled the mask's graph reaches
  exactly these parameters.
\<close>

definition generate ::
  "('x, 'm, 's, 'o option, 'r) library \<Rightarrow> bool \<Rightarrow> 'x \<Rightarrow> ('o, 'r) trainer
   \<Rightarrow> 'm tensor \<times> ('o, 'r) trainer"
where
  "generate env grad_enabled x s =
     (let m = model s;
          r = gen_forward env (training m) (map (weights m) (generator_parameters m))
                (world s) x
      in (\<lparr>tdata = fst r,
           leaves = (if grad_enabled then generator_parameters m else [])\<rparr>,
          s\<lparr>world := snd r\<rparr>))"

text \<open>
  Modelled from the spec: \<open>discriminator(image, mask) -> score\<close> of the model class. The
  score's graph reaches the discriminator's parameters and whatever the mask's graph
  reaches.
\<close>

definition discriminator ::
  "('x, 'm, 's, 'o option, 'r) library \<Rightarrow> 'x \<Rightarrow> 'm tensor \<Rightarrow> ('o, 'r) trainer
   \<Rightarrow> 's tensor \<times> ('o, 'r) trainer"
where
  "discriminator env x msk s =
     (let m = model s;
          r = disc_forward env (training m) (map (weights m) (discriminator_parameters m))
                (world s) x (tdata msk)
      in (\<lparr>tdata = fst r, leaves = discriminator_parameters m @ leaves msk\<rparr>,
          s\<lparr>world := snd r\<rparr>))"

text \<open>A tensor that comes from the data loader has no graph.\<close>

definition plain :: "'a \<Rightarrow> 'a tensor" where
  "plain a = \<lparr>tdata = a, leaves = []\<rparr>"

definition generator_loss ::
  "('x, 'm, 's, 'o option, 'r) library \<Rightarrow> 'm tensor \<Rightarrow> 'm \<Rightarrow> loss_tensor"
where
  "generator_loss env outputs targets =
     \<lparr>item = combined_loss env (tdata outputs) targets,
      graph = leaves outputs,
      grad_wrt = combined_loss_grad env (tdata outputs) targets\<rparr>"

definition discriminator_loss ::
  "('x, 'm, 's, 'o option, 'r) library \<Rightarrow> 's tensor \<Rightarrow> 's \<Rightarrow> loss_tensor"
where
  "discriminator_loss env output labels =
     \<lparr>item = bce_loss env (tdata output) labels,
      graph = leaves output,
      grad_wrt = bce_loss_grad env (tdata output) labels\<rparr>"

section \<open>The two training steps\<close>

type_synonym ('a, 'o, 'r) result = "(error \<times> ('o, 'r) trainer) + ('a \<times> ('o, 'r) trainer)"

definition train_generator ::
  "('x, 'm, 's, 'o option, 'r) library \<Rightarrow> 'x \<Rightarrow> 'm \<Rightarrow> ('o, 'r) trainer
   \<Rightarrow> (pyfloat \<times> 'm tensor, 'o, 'r) result"
where
  "train_generator env data targets s =
     (let s1 = s\<lparr>model := zero_grad (optimizer_G s) (model s)\<rparr>;
          gen = generate env True data s1;
          fake_masks = fst gen;
          s2 = snd gen;
          g_seg_loss = generator_loss env fake_masks targets
      in if check_loss_nan (item g_seg_loss)
         then Inl (ValueError ''NaN in g_seg_loss'',
                   logger_error ''NaN detected in g_seg_loss'' s2)
         else (let s3 = s2\<lparr>model := backward g_seg_loss (model s2)\<rparr>;
                   om = optimizer_step env (optimizer_G s3) (model s3);
                   s4 = s3\<lparr>optimizer_G := fst om, model := snd om\<rparr>
               in Inr ((item g_seg_loss, fake_masks), s4)))"

definition train_discriminator ::
  "('x, 'm, 's, 'o option, 'r) library \<Rightarrow> 'x \<Rightarrow> 'm tensor \<Rightarrow> 'm \<Rightarrow> ('o, 'r) trainer
   \<Rightarrow> (pyfloat, 'o, 'r) result"
where
  "train_discriminator env data mask_fakes0 targets s =
     (let s1 = s\<lparr>model := zero_grad (optimizer_D s) (model s)\<rparr>;
          mask_fakes = detach mask_fakes0;
          r = discriminator env data (plain targets) s1;
          real_output = fst r;
          f = discriminator env data mask_fakes (snd r);
          fake_output = fst f;
          s2 = snd f;
          real_labels = mul_scalar env (ones_like env (tdata real_output)) (9 / 10);
          fake_labels = zeros_like env (tdata fake_output);
          d_real_loss = discriminator_loss env real_output real_labels
      in if check_loss_nan (item d_real_loss)
         then Inl (ValueError ''NaN in d_real_loss'',
                   logger_error ''NaN detected in d_real_loss'' s2)
         else (let d_fake_loss = discriminator_loss env fake_output fake_labels
               in if check_loss_nan (item d_fake_loss)
                  then Inl (ValueError ''NaN in d_fake_loss'',
                            logger_error ''NaN detected in d_fake_loss'' s2)
                  else (let d_loss = loss_add d_real_loss d_fake_loss;
                            s3 = s2\<lparr>model := backward d_loss (model s2)\<rparr>;
                            om = optimizer_step env (optimizer_D s3) (model s3);
                            s4 = s3\<lparr>optimizer_D := fst om, model := snd om\<rparr>
                        in Inr (item d_loss, s4))))"

section \<open>Running metric sums\<close>

definition zero_metrics :: metrics6 where
  "zero_metrics =
     \<lparr>mean_iou = Fin 0, recall = Fin 0, precision = Fin 0,
      accuracy = Fin 0, dice = Fin 0, f2 = Fin 0\<rparr>"

text \<open>
  \<open>if key in metric: metrics[key] += metric[key]\<close>, for the mapping \<open>metric\<close> that the
  metrics computer returns.
\<close>

definition add_metric :: "(string \<times> pyfloat) list \<Rightarrow> string \<Rightarrow> pyfloat \<Rightarrow> pyfloat" where
  "add_metric metric key v = (case map_of metric key of None \<Rightarrow> v | Some x \<Rightarrow> fadd v x)"

definition accumulate :: "(string \<times> pyfloat) list \<Rightarrow> metrics6 \<Rightarrow> metrics6" where
  "accumulate metric ms =
     \<lparr>mean_iou = add_metric metric ''mean_iou'' (mean_iou ms),
      recall = add_metric metric ''recall'' (recall ms),
      precision = add_metric metric ''precision'' (precision ms),
      accuracy = add_metric metric ''accuracy'' (accuracy ms),
      dice = add_metric metric ''dice'' (dice ms),
      f2 = add_metric metric ''f2'' (f2 ms)\<rparr>"

definition averaged :: "metrics6 \<Rightarrow> nat \<Rightarrow> metrics6" where
  "averaged ms n =
     \<lparr>mean_iou = fdiv (mean_iou ms) n, recall = fdiv (recall ms) n,
      precision = fdiv (precision ms) n, accuracy = fdiv (accuracy ms) n,
      dice = fdiv (dice ms) n, f2 = fdiv (f2 ms) n\<rparr>"

text \<open>The six divisions of a \<open>logs\<close> dictionary share their divisor: the first one raises on zero.\<close>

definition metrics_div :: "metrics6 \<Rightarrow> nat \<Rightarrow> error + metrics6" where
  "metrics_div ms n = (if n = 0 then Inl ZeroDivisionError else Inr (averaged ms n))"

section \<open>One training epoch\<close>

text \<open>
  The local variables of \<open>train_one_epoch\<close>: the loss totals, the metric sums, the
  progress bar's counter \<open>pbar.n\<close> and \<open>logs\<close>, which is unbound until the loop body has
  run once.
\<close>

record train_acc =
  total_g_loss :: pyfloat
  total_d_loss :: pyfloat
  train_metrics :: metrics6
  train_n :: nat
  train_logs :: "metrics6 option"

definition train_acc0 :: train_acc where
  "train_acc0 =
     \<lparr>total_g_loss = Fin 0, total_d_loss = Fin 0, train_metrics = zero_metrics,
      train_n = 0, train_logs = None\<rparr>"

text \<open>
  \<open>pbar.update(k)\<close>: the counter \<open>pbar.n\<close> grows by \<open>k\<close>, unless the bar is disabled: then
  the call returns at once and the counter stays where it is.
\<close>

definition pbar_update :: "('x, 'm, 's, 'o, 'r) library \<Rightarrow> nat \<Rightarrow> nat \<Rightarrow> nat" where
  "pbar_update env n k = (if tqdm_disable env then n else n + k)"

text \<open>
  The bar's iterator, between two batches: it may add its own refresh amount to the
  counter, reading the clock; a disabled bar hands the batches on and does nothing else.
\<close>

definition pbar_iter :: "('x, 'm, 's, 'o, 'r) library \<Rightarrow> 'r \<Rightarrow> nat \<times> 'r" where
  "pbar_iter env r = (if tqdm_disable env then (0, r) else tqdm_refresh env r)"

text \<open>
  The body of the loop over the training batches. The bar is both iterated and advanced
  by hand: \<open>pbar.update(1)\<close> moves its counter before the divisions by \<open>pbar.n\<close>, and the
  bar's iterator may add its own refresh amount before it yields the next batch.
\<close>

definition train_batch ::
  "('x, 'm, 's, 'o option, 'r) library \<Rightarrow> 'x \<times> 'm \<Rightarrow> train_acc \<Rightarrow> ('o, 'r) trainer
   \<Rightarrow> (train_acc, 'o, 'r) result"
where
  "train_batch env batch acc s =
     (let data = to_float32_x env (fst batch);
          targets = to_float32_m env (snd batch)
      in case train_generator env data targets s of
           Inl e \<Rightarrow> Inl e
         | Inr gr \<Rightarrow>
            (let g_loss = fst (fst gr); fake_mask = snd (fst gr); s1 = snd gr
             in if check_loss_nan g_loss
                then Inl (ValueError ''NaN in generator loss'',
                          logger_error ''NaN detected in generator loss. Stopping training.'' s1)
                else case train_discriminator env data fake_mask targets s1 of
                       Inl e \<Rightarrow> Inl e
                     | Inr dr \<Rightarrow>
                        (let d_loss = fst dr; s2 = snd dr
                         in if check_loss_nan d_loss
                            then Inl (ValueError ''NaN in discriminator loss'',
                                      logger_error
                                        ''NaN detected in discriminator loss. Stopping training.'' s2)
                            else (let metric = segmentation_metrics env (tdata fake_mask) targets;
                                      ms = accumulate metric (train_metrics acc);
                                      n = pbar_update env (train_n acc) 1
                                  in case metrics_div ms n of
                                       Inl e \<Rightarrow> Inl (e, s2)
                                     | Inr logs \<Rightarrow>
                                        (let s3 = s2\<lparr>progress := progress s2
                                                       @ [Train_postfix g_loss d_loss logs]\<rparr>;
                                             tick = pbar_iter env (world s3)
                                         in Inr (\<lparr>total_g_loss = fadd (total_g_loss acc) g_loss,
                                                  total_d_loss = fadd (total_d_loss acc) d_loss,
                                                  train_metrics = ms,
                                                  train_n = n + fst tick,
                                                  train_logs = Some logs\<rparr>,
                                                 s3\<lparr>world := snd tick\<rparr>))))))"

fun train_loop ::
  "('x, 'm, 's, 'o option, 'r) library \<Rightarrow> ('x \<times> 'm) list \<Rightarrow> train_acc \<Rightarrow> ('o, 'r) trainer
   \<Rightarrow> (train_acc, 'o, 'r) result"
where
  "train_loop env [] acc s = Inr (acc, s)"
| "train_loop env (batch # rest) acc s =
     (case train_batch env batch acc s of
        Inl e \<Rightarrow> Inl e
      | Inr r \<Rightarrow> train_loop env rest (fst r) (snd r))"

definition train_one_epoch ::
  "('x, 'm, 's, 'o option, 'r) library \<Rightarrow> ('o, 'r) trainer
   \<Rightarrow> (pyfloat \<times> pyfloat \<times> metrics6, 'o, 'r) result"
where
  "train_one_epoch env s =
     (let s0 = s\<lparr>model := (model s)\<lparr>training := True\<rparr>\<rparr>;
          loader = train_batches env (world s0);
          s1 = s0\<lparr>world := snd loader\<rparr>
      in case train_loop env (fst loader) train_acc0 s1 of
           Inl e \<Rightarrow> Inl e
         | Inr r \<Rightarrow>
            (case py_truediv (total_g_loss (fst r)) (length (fst loader)) of
               Inl e \<Rightarrow> Inl (e, snd r)
             | Inr avg_g_loss \<Rightarrow>
                (case py_truediv (total_d_loss (fst r)) (length (fst loader)) of
                   Inl e \<Rightarrow> Inl (e, snd r)
                 | Inr avg_d_loss \<Rightarrow>
                    (case train_logs (fst r) of
                       None \<Rightarrow> Inl (UnboundLocalError, snd r)
                     | Some logs \<Rightarrow> Inr ((avg_g_loss, avg_d_loss, logs), snd r)))))"

section \<open>Validation\<close>

record val_acc =
  total_val_loss :: pyfloat
  val_sums :: metrics6
  val_n :: nat

definition val_acc0 :: val_acc where
  "val_acc0 = \<lparr>total_val_loss = Fin 0, val_sums = zero_metrics, val_n = 0\<rparr>"

text \<open>
  The body of the validation loop. The loop runs over the loader itself, so the bar's
  counter moves by \<open>pbar.update(1)\<close> only; the divisions of the body are by \<open>pbar.n\<close>.
  Gradients are disabled for the whole method.
\<close>

definition validate_batch ::
  "('x, 'm, 's, 'o option, 'r) library \<Rightarrow> 'x \<times> 'm \<Rightarrow> val_acc \<Rightarrow> ('o, 'r) trainer
   \<Rightarrow> (val_acc, 'o, 'r) result"
where
  "validate_batch env batch acc s =
     (let data = to_float32_x env (fst batch);
          targets = to_float32_m env (snd batch);
          gen = generate env False data s;
          outputs = fst gen;
          s1 = snd gen;
          combined = generator_loss env outputs targets
      in if check_loss_nan (item combined)
         then Inl (ValueError ''NaN in val_loss'', logger_error ''NaN detected in val_loss'' s1)
         else (let total = fadd (total_val_loss acc) (item combined);
                   metric = segmentation_metrics env (tdata outputs) targets;
                   ms = accumulate metric (val_sums acc);
                   n = pbar_update env (val_n acc) 1
               in case py_truediv (item combined) n of
                    Inl e \<Rightarrow> Inl (e, s1)
                  | Inr shown \<Rightarrow>
                     (case metrics_div ms n of
                        Inl e \<Rightarrow> Inl (e, s1)
                      | Inr avgs \<Rightarrow>
                         Inr (\<lparr>total_val_loss = total, val_sums = ms, val_n = n\<rparr>,
                              s1\<lparr>progress := progress s1
                                   @ [Val_postfix \<lparr>val_loss = shown, val_metrics = avgs\<rparr>]\<rparr>))))"

fun validate_loop ::
  "('x, 'm, 's, 'o option, 'r) library \<Rightarrow> ('x \<times> 'm) list \<Rightarrow> val_acc \<Rightarrow> ('o, 'r) trainer
   \<Rightarrow> (val_acc, 'o, 'r) result"
where
  "validate_loop env [] acc s = Inr (acc, s)"
| "validate_loop env (batch # rest) acc s =
     (case validate_batch env batch acc s of
        Inl e \<Rightarrow> Inl e
      | Inr r \<Rightarrow> validate_loop env rest (fst r) (snd r))"

definition validate ::
  "('x, 'm, 's, 'o option, 'r) library \<Rightarrow> ('o, 'r) trainer
   \<Rightarrow> (pyfloat \<times> val_logs, 'o, 'r) result"
where
  "validate env s =
     (let s0 = s\<lparr>model := (model s)\<lparr>training := False\<rparr>\<rparr>
      in case validate_loop env (val_batches env) val_acc0 s0 of
           Inl e \<Rightarrow> Inl e
         | Inr r \<Rightarrow>
            (case py_truediv (total_val_loss (fst r)) (length (val_batches env)) of
               Inl e \<Rightarrow> Inl (e, snd r)
             | Inr avg_val_loss \<Rightarrow>
                (case metrics_div (val_sums (fst r)) (length (val_batches env)) of
                   Inl e \<Rightarrow> Inl (e, snd r)
                 | Inr avgs \<Rightarrow>
                    Inr ((avg_val_loss, \<lparr>val_loss = avg_val_loss, val_metrics = avgs\<rparr>),
                         snd r))))"

section \<open>The metrics file\<close>

text \<open>
  \<open>csv.DictWriter\<close> with the default \<open>extrasaction\<close>: a key outside the field names
  raises, a field without a key is written blank, and the cells follow the order of the
  field names.
\<close>

definition dict_to_list :: "string list \<Rightarrow> (string \<times> cell) list \<Rightarrow> error + cell list" where
  "dict_to_list fieldnames rowdict =
     (if \<exists>k \<in> set (map fst rowdict). k \<notin> set fieldnames
      then Inl (ValueError ''dict contains fields not in fieldnames'')
      else Inr (map (\<lambda>f. case map_of rowdict f of None \<Rightarrow> Cell_blank | Some c \<Rightarrow> c) fieldnames))"

definition writeheader :: "string list \<Rightarrow> cell list" where
  "writeheader fieldnames = map Cell_str fieldnames"

definition log_to_csv ::
  "int \<Rightarrow> pyfloat \<Rightarrow> pyfloat \<Rightarrow> pyfloat \<Rightarrow> val_logs \<Rightarrow> metrics6 \<Rightarrow> ('o, 'r) trainer
   \<Rightarrow> (error \<times> ('o, 'r) trainer) + ('o, 'r) trainer"
where
  "log_to_csv epoch train_g_loss train_d_loss v logs tlogs s =
     (let metrics =
            [(''epoch'', Cell_int epoch),
             (''train_g_loss'', Cell_float train_g_loss),
             (''train_d_loss'', Cell_float train_d_loss),
             (''val_loss'', Cell_float v),
             (''train_mean_iou'', Cell_float (mean_iou tlogs)),
             (''train_recall'', Cell_float (recall tlogs)),
             (''train_precision'', Cell_float (precision tlogs)),
             (''train_accuracy'', Cell_float (accuracy tlogs)),
             (''train_dice'', Cell_float (dice tlogs)),
             (''train_f2'', Cell_float (f2 tlogs)),
             (''val_loss'', Cell_float v),
             (''mean_iou'', Cell_float (mean_iou (val_metrics logs))),
             (''recall'', Cell_float (recall (val_metrics logs))),
             (''precision'', Cell_float (precision (val_metrics logs))),
             (''accuracy'', Cell_float (accuracy (val_metrics logs))),
             (''dice'', Cell_float (dice (val_metrics logs))),
             (''f2'', Cell_float (f2 (val_metrics logs)))]
      in case dict_to_list (csv_fields s) metrics of
           Inl e \<Rightarrow> Inl (e, s)
         | Inr row \<Rightarrow> Inr (s\<lparr>csv_rows := csv_rows s @ [row]\<rparr>))"

section \<open>Checkpoints\<close>

definition os_path_join :: "string \<Rightarrow> string \<Rightarrow> string" where
  "os_path_join a b =
     (if b \<noteq> [] \<and> hd b = CHR ''/'' then b
      else if a = [] \<or> last a = CHR ''/'' then a @ b
      else a @ ''/'' @ b)"

text \<open>
  Modelled from the spec: \<open>save_checkpoint(path)\<close> and \<open>save_best_checkpoint(path)\<close> of
  the model class, which is not among the sources. Each persists a snapshot of the
  model's parameters at the path.
\<close>

definition save_checkpoint :: "string \<Rightarrow> ('o, 'r) trainer \<Rightarrow> ('o, 'r) trainer" where
  "save_checkpoint path s = s\<lparr>saved := saved s @ [(path, weights (model s))]\<rparr>"

definition save_best_checkpoint :: "string \<Rightarrow> ('o, 'r) trainer \<Rightarrow> ('o, 'r) trainer" where
  "save_best_checkpoint path s = s\<lparr>saved := saved s @ [(path, weights (model s))]\<rparr>"

definition save_model :: "string option \<Rightarrow> bool \<Rightarrow> ('o, 'r) trainer \<Rightarrow> ('o, 'r) trainer" where
  "save_model proj_name is_best s =
     (let wdir = (case log_dir s of
                    None \<Rightarrow> checkpoint_dir (config s)
                  | Some d \<Rightarrow> os_path_join d ''weights'');
          s1 = s\<lparr>weights_dir := Some wdir\<rparr>;
          last_model_path = wdir @ ''/last_model.pth'';
          s2 = save_checkpoint last_model_path s1;
          s3 = logger_info (''Saved model checkpoint at '' @ last_model_path) s2
      in if is_best
         then (let best_model_path = wdir @ ''/best_gan_model.pth'';
                   s4 = save_best_checkpoint best_model_path s3
               in logger_info (''Saved best model checkpoint at '' @ best_model_path) s4)
         else s3)"

section \<open>Learning-rate schedule\<close>

text \<open>
  Modelled from the spec: the step of the library's step-decay scheduler, which is not
  among the sources. The spec has it multiply the learning rate by a fixed factor every
  fixed number of epochs: a step counts one epoch more and multiplies the optimizer's
  learning rate by \<open>gamma\<close> when the count has reached a multiple of the period. The
  test takes the remainder of the count by the period, which raises on a period of zero.
\<close>

definition scheduler_step ::
  "scheduler \<Rightarrow> 'a optimizer \<Rightarrow> error + (scheduler \<times> 'a optimizer)"
where
  "scheduler_step sch opt =
     (let e = last_epoch sch + 1
      in if step_size sch = 0 then Inl ZeroDivisionError
         else Inr (sch\<lparr>last_epoch := e\<rparr>,
                   (if e mod step_size sch \<noteq> 0 then opt
                    else opt\<lparr>lr := lr opt * gamma sch\<rparr>)))"

section \<open>The epoch loop\<close>

definition train_epoch ::
  "('x, 'm, 's, 'o option, 'r) library \<Rightarrow> int \<Rightarrow> ('o, 'r) trainer
   \<Rightarrow> (error \<times> ('o, 'r) trainer) + ('o, 'r) trainer"
where
  "train_epoch env epoch s =
     (case train_one_epoch env s of
        Inl e \<Rightarrow> Inl e
      | Inr t \<Rightarrow>
         (case validate env (snd t) of
            Inl e \<Rightarrow> Inl e
          | Inr v \<Rightarrow>
             (let train_g_loss = fst (fst t);
                  train_d_loss = fst (snd (fst t));
                  train_log = snd (snd (fst t));
                  vloss = fst (fst v);
                  logs = snd (fst v);
                  s2 = snd v;
                  s3 = s2\<lparr>logger := logger s2
                         @ [Log_epoch (epoch + 1) (num_epochs (config s2))
                              train_g_loss train_d_loss vloss logs]\<rparr>
              in case log_to_csv (epoch + 1) train_g_loss train_d_loss vloss logs train_log s3 of
                   Inl e \<Rightarrow> Inl e
                 | Inr s4 \<Rightarrow>
                    (let is_best = flt vloss (best_val_loss s4);
                         s5 = (if is_best then s4\<lparr>best_val_loss := vloss\<rparr> else s4);
                         s6 = save_model (log_dir s5) is_best s5
                     in case scheduler_step (scheduler_G s6) (optimizer_G s6) of
                          Inl e \<Rightarrow> Inl (e, s6)
                        | Inr g \<Rightarrow>
                           (let s7 = s6\<lparr>scheduler_G := fst g, optimizer_G := snd g\<rparr>
                            in case scheduler_step (scheduler_D s7) (optimizer_D s7) of
                                 Inl e \<Rightarrow> Inl (e, s7)
                               | Inr d \<Rightarrow>
                                  Inr (s7\<lparr>scheduler_D := fst d, optimizer_D := snd d\<rparr>))))))"

fun epochs_loop ::
  "('x, 'm, 's, 'o option, 'r) library \<Rightarrow> nat list \<Rightarrow> ('o, 'r) trainer
   \<Rightarrow> (error \<times> ('o, 'r) trainer) + ('o, 'r) trainer"
where
  "epochs_loop env [] s = Inr s"
| "epochs_loop env (epoch # rest) s =
     (case train_epoch env (int epoch) s of
        Inl e \<Rightarrow> Inl e
      | Inr s' \<Rightarrow> epochs_loop env rest s')"

definition train ::
  "('x, 'm, 's, 'o option, 'r) library \<Rightarrow> ('o, 'r) trainer
   \<Rightarrow> (error \<times> ('o, 'r) trainer) + ('o, 'r) trainer"
where
  "train env s =
     epochs_loop env [0 ..< nat (num_epochs (config s))]
       (logger_info ''Starting training...'' s)"

section \<open>Construction\<close>

definition new_adam :: "pid list \<Rightarrow> real \<Rightarrow> real \<times> real \<Rightarrow> 'o option optimizer" where
  "new_adam ps rate bs =
     \<lparr>param_ids = ps, lr = rate, betas = bs, opt_state = (\<lambda>p. None)\<rparr>"

definition new_step_lr :: "int \<Rightarrow> real \<Rightarrow> scheduler" where
  "new_step_lr period factor = \<lparr>step_size = period, gamma = factor, last_epoch = 0\<rparr>"

definition setup_training :: "('o, 'r) trainer \<Rightarrow> ('o, 'r) trainer" where
  "setup_training s =
     s\<lparr>best_val_loss := PInf,
       optimizer_G := new_adam (generator_parameters (model s)) (lr_generator (config s))
                        (beta1 (config s), beta2 (config s)),
       optimizer_D := new_adam (discriminator_parameters (model s))
                        (lr_discriminator (config s)) (beta1 (config s), beta2 (config s)),
       scheduler_G := new_step_lr (lr_decay_step (config s)) (lr_decay_gamma (config s)),
       scheduler_D := new_step_lr (lr_decay_step (config s)) (lr_decay_gamma (config s))\<rparr>"

definition fields :: "string list" where
  "fields =
     [''epoch'', ''train_g_loss'', ''train_d_loss'', ''val_loss'', ''mean_iou'', ''recall'',
      ''precision'', ''accuracy'', ''dice'', ''f2'', ''train_mean_iou'', ''train_precision'',
      ''train_recall'', ''train_f2'', ''train_accuracy'', ''train_dice'']"

text \<open>
  \<open>timestamp\<close> is the formatted current time. Opening the metrics file for writing
  empties it before the header is written.
\<close>

definition setup_logging :: "string \<Rightarrow> ('o, 'r) trainer \<Rightarrow> ('o, 'r) trainer" where
  "setup_logging timestamp s =
     (let stamp = (case names s of None \<Rightarrow> timestamp | Some n \<Rightarrow> n @ ''_'' @ timestamp);
          dir = os_path_join (checkpoint_dir (config s)) (''logs_'' @ stamp)
      in s\<lparr>log_dir := Some dir,
           csv_file := os_path_join dir ''metrics.csv'',
           csv_fields := fields,
           csv_rows := [writeheader fields]\<rparr>)"

text \<open>
  The constructor: the loaded configuration with the batch size overridden when one is
  given, then the two setup methods. The attributes that the setup methods assign start
  here with placeholders.
\<close>

definition init ::
  "gan_model \<Rightarrow> int option \<Rightarrow> config \<Rightarrow> string option \<Rightarrow> string \<Rightarrow> 'r \<Rightarrow> ('o, 'r) trainer"
where
  "init m bs cfg nm timestamp w =
     (let cfg1 = (case bs of None \<Rightarrow> cfg | Some b \<Rightarrow> cfg\<lparr>batch_size := b\<rparr>)
      in setup_logging timestamp
           (setup_training
              \<lparr>config = cfg1, model = m, names = nm,
               optimizer_G = new_adam [] 0 (0, 0), optimizer_D = new_adam [] 0 (0, 0),
               scheduler_G = new_step_lr 0 0, scheduler_D = new_step_lr 0 0,
               best_val_loss = PInf, log_dir = None, weights_dir = None,
               csv_file = [], csv_fields = [], world = w, logger = [], csv_rows = [],
               saved = [], progress = []\<rparr>))"

section \<open>Auxiliary notions for the properties\<close>

definition gen_out where
  "gen_out env s x = gen_forward env (training (model s))
     (map (weights (model s)) (generator_parameters (model s))) (world s) x"

definition disc_out where
  "disc_out env s x m = disc_forward env (training (model s))
     (map (weights (model s)) (discriminator_parameters (model s))) (world s) x m"

definition gen_loss_t where
  "gen_loss_t env data targets s =
     generator_loss env
       \<lparr>tdata = fst (gen_out env s data), leaves = generator_parameters (model s)\<rparr> targets"

definition gen_om where
  "gen_om env data targets s =
     optimizer_step env (optimizer_G s)
       (backward (gen_loss_t env data targets s) (zero_grad (optimizer_G s) (model s)))"

definition disc_real where
  "disc_real env data targets s = disc_out env s data targets"

definition disc_fake where
  "disc_fake env data fk targets s =
     disc_out env (s\<lparr>world := snd (disc_real env data targets s)\<rparr>) data (tdata fk)"

definition d_real_t where
  "d_real_t env data targets s =
     discriminator_loss env
       \<lparr>tdata = fst (disc_real env data targets s), leaves = discriminator_parameters (model s)\<rparr>
       (mul_scalar env (ones_like env (fst (disc_real env data targets s))) (9 / 10))"

definition d_fake_t where
  "d_fake_t env data fk targets s =
     discriminator_loss env
       \<lparr>tdata = fst (disc_fake env data fk targets s),
        leaves = discriminator_parameters (model s)\<rparr>
       (zeros_like env (fst (disc_fake env data fk targets s)))"

definition disc_om where
  "disc_om env data fk targets s =
     optimizer_step env (optimizer_D s)
       (backward (loss_add (d_real_t env data targets s) (d_fake_t env data fk targets s))
          (zero_grad (optimizer_D s) (model s)))"

definition ledger where
  "ledger s =
     (config s, names s, scheduler_G s, scheduler_D s, best_val_loss s, log_dir s,
      weights_dir s, csv_file s, csv_fields s, csv_rows s, saved s,
      (lr (optimizer_G s), betas (optimizer_G s), param_ids (optimizer_G s)),
      (lr (optimizer_D s), betas (optimizer_D s), param_ids (optimizer_D s)),
      generator_parameters (model s), discriminator_parameters (model s))"

definition nan_sites :: "(string \<times> string) list" where
  "nan_sites =
     [(''NaN in g_seg_loss'', ''NaN detected in g_seg_loss''),
      (''NaN in d_real_loss'', ''NaN detected in d_real_loss''),
      (''NaN in d_fake_loss'', ''NaN detected in d_fake_loss''),
      (''NaN in val_loss'', ''NaN detected in val_loss''),
      (''NaN in generator loss'', ''NaN detected in generator loss. Stopping training.''),
      (''NaN in discriminator loss'',
       ''NaN detected in discriminator loss. Stopping training.'')]"

definition nan_failure :: "error \<Rightarrow> ('o, 'r) trainer \<Rightarrow> bool" where
  "nan_failure e s =
     (\<exists>site \<in> set nan_sites.
        e = ValueError (fst site) \<and> logger s \<noteq> [] \<and> last (logger s) = Log_error (snd site))"

definition demo_library :: "(real, real, real, nat option, nat) library" where
  "demo_library =
     \<lparr>gen_forward = (\<lambda>tr ws r x. (sum_list ws * x, r + 1)),
      disc_forward = (\<lambda>tr ws r x m. (sum_list ws * m, r + 1)),
      combined_loss = (\<lambda>out tg. if tg < 0 then NaN else Fin (abs (out - tg))),
      combined_loss_grad = (\<lambda>out tg p. - 1),
      bce_loss = (\<lambda>sc lab. if sc < 0 then NaN else Fin (abs (sc - lab))),
      bce_loss_grad = (\<lambda>sc lab p. 1),
      ones_like = (\<lambda>sc. 1),
      zeros_like = (\<lambda>sc. 0),
      mul_scalar = (\<lambda>sc c. sc * c),
      adam_update = (\<lambda>rate bs st w g.
         (w - rate * g, Some (case st of None \<Rightarrow> 1 | Some k \<Rightarrow> k + 1))),
      segmentation_metrics = (\<lambda>a b. [(''mean_iou'', Fin 1), (''dice'', Fin (1 / 2))]),
      to_float32_x = (\<lambda>x. x),
      to_float32_m = (\<lambda>m. m),
      train_batches = (\<lambda>r. ([(1, 2)], r + 1)),
      val_batches = [(1, 2), (1, 4)],
      tqdm_refresh = (\<lambda>r. (0, r)),
      tqdm_disable = False\<rparr>"

definition demo_model :: gan_model where
  "demo_model =
     \<lparr>generator_parameters = [0], discriminator_parameters = [1],
      weights = (\<lambda>p. 1), grads = (\<lambda>p. None), training = False\<rparr>"

definition demo_config :: config where
  "demo_config =
     \<lparr>device = ''cpu'', batch_size = 16, num_epochs = 2, lr_generator = 1 / 10,
      lr_discriminator = 1 / 10, beta1 = 1 / 2, beta2 = 9 / 10, lr_decay_step = 1,
      lr_decay_gamma = 1 / 2, checkpoint_dir = ''ckpt''\<rparr>"

definition demo_trainer :: "(nat, nat) trainer" where
  "demo_trainer = init demo_model None demo_config None ''t0'' 0"

definition demo_empty_library :: "(real, real, real, nat option, nat) library" where
  "demo_empty_library = demo_library\<lparr>train_batches := (\<lambda>r. ([], r))\<rparr>"

definition demo_nan_library :: "(real, real, real, nat option, nat) library" where
  "demo_nan_library = demo_library\<lparr>train_batches := (\<lambda>r. ([(1, - 1)], r))\<rparr>"

text \<open>The demonstration library with the progress bars disabled.\<close>

definition demo_disabled_library :: "(real, real, real, nat option, nat) library" where
  "demo_disabled_library = demo_library\<lparr>tqdm_disable := True\<rparr>"

text \<open>The error that a call raised, when it raised one.\<close>

definition raised :: "('a, 'o, 'r) result \<Rightarrow> error option" where
  "raised r = (case r of Inl e \<Rightarrow> Some (fst e) | Inr a \<Rightarrow> None)"

text \<open>What a progress-bar postfix of the validation loop shows as \<open>val_loss\<close>.\<close>

definition shown_val_loss :: "postfix \<Rightarrow> pyfloat option" where
  "shown_val_loss p = (case p of Val_postfix l \<Rightarrow> Some (val_loss l) | Train_postfix g d l \<Rightarrow> None)"

text \<open>The directory and the two paths that \<open>save_model\<close> writes to.\<close>

definition weights_path :: "('o, 'r) trainer \<Rightarrow> string" where
  "weights_path s =
     (case log_dir s of
        None \<Rightarrow> checkpoint_dir (config s)
      | Some d \<Rightarrow> os_path_join d ''weights'')"

definition last_model_path :: "('o, 'r) trainer \<Rightarrow> string" where
  "last_model_path s = weights_path s @ ''/last_model.pth''"

definition best_model_path :: "('o, 'r) trainer \<Rightarrow> string" where
  "best_model_path s = weights_path s @ ''/best_gan_model.pth''"

text \<open>The dictionary that \<open>_log_to_csv\<close> hands to the writer.\<close>

definition csv_dict ::
  "int \<Rightarrow> pyfloat \<Rightarrow> pyfloat \<Rightarrow> pyfloat \<Rightarrow> val_logs \<Rightarrow> metrics6 \<Rightarrow> (string \<times> cell) list"
where
  "csv_dict epoch train_g_loss train_d_loss v logs tlogs =
            [(''epoch'', Cell_int epoch),
             (''train_g_loss'', Cell_float train_g_loss),
             (''train_d_loss'', Cell_float train_d_loss),
             (''val_loss'', Cell_float v),
             (''train_mean_iou'', Cell_float (mean_iou tlogs)),
             (''train_recall'', Cell_float (recall tlogs)),
             (''train_precision'', Cell_float (precision tlogs)),
             (''train_accuracy'', Cell_float (accuracy tlogs)),
             (''train_dice'', Cell_float (dice tlogs)),
             (''train_f2'', Cell_float (f2 tlogs)),
             (''val_loss'', Cell_float v),
             (''mean_iou'', Cell_float (mean_iou (val_metrics logs))),
             (''recall'', Cell_float (recall (val_metrics logs))),
             (''precision'', Cell_float (precision (val_metrics logs))),
             (''accuracy'', Cell_float (accuracy (val_metrics logs))),
             (''dice'', Cell_float (dice (val_metrics logs))),
             (''f2'', Cell_float (f2 (val_metrics logs)))]"

text \<open>The learning rate after a scheduler step that succeeds.\<close>

definition decayed :: "scheduler \<Rightarrow> real \<Rightarrow> real" where
  "decayed sch rate =
     (if (last_epoch sch + 1) mod step_size sch \<noteq> 0 then rate else rate * gamma sch)"

text \<open>What \<open>train\<close> does in an epoch after the two passes have returned.\<close>

definition finish_epoch ::
  "int \<Rightarrow> pyfloat \<Rightarrow> pyfloat \<Rightarrow> metrics6 \<Rightarrow> pyfloat \<Rightarrow> val_logs \<Rightarrow> ('o, 'r) trainer
   \<Rightarrow> (error \<times> ('o, 'r) trainer) + ('o, 'r) trainer"
where
  "finish_epoch epoch train_g_loss train_d_loss train_log vloss logs s2 =
             (let s3 = s2\<lparr>logger := logger s2
                         @ [Log_epoch (epoch + 1) (num_epochs (config s2))
                              train_g_loss train_d_loss vloss logs]\<rparr>
              in case log_to_csv (epoch + 1) train_g_loss train_d_loss vloss logs train_log s3 of
                   Inl e \<Rightarrow> Inl e
                 | Inr s4 \<Rightarrow>
                    (let is_best = flt vloss (best_val_loss s4);
                         s5 = (if is_best then s4\<lparr>best_val_loss := vloss\<rparr> else s4);
                         s6 = save_model (log_dir s5) is_best s5
                     in case scheduler_step (scheduler_G s6) (optimizer_G s6) of
                          Inl e \<Rightarrow> Inl (e, s6)
                        | Inr g \<Rightarrow>
                           (let s7 = s6\<lparr>scheduler_G := fst g, optimizer_G := snd g\<rparr>
                            in case scheduler_step (scheduler_D s7) (optimizer_D s7) of
                                 Inl e \<Rightarrow> Inl (e, s7)
                               | Inr d \<Rightarrow>
                                  Inr (s7\<lparr>scheduler_D := fst d, optimizer_D := snd d\<rparr>))))"

text \<open>The row of the metrics file for one epoch, in the order of the field names.\<close>

definition csv_row ::
  "int \<Rightarrow> pyfloat \<Rightarrow> pyfloat \<Rightarrow> pyfloat \<Rightarrow> val_logs \<Rightarrow> metrics6 \<Rightarrow> cell list"
where
  "csv_row epoch train_g_loss train_d_loss v logs tlogs =
     [Cell_int epoch, Cell_float train_g_loss, Cell_float train_d_loss, Cell_float v,
      Cell_float (mean_iou (val_metrics logs)), Cell_float (recall (val_metrics logs)),
      Cell_float (precision (val_metrics logs)), Cell_float (accuracy (val_metrics logs)),
      Cell_float (dice (val_metrics logs)), Cell_float (f2 (val_metrics logs)),
      Cell_float (mean_iou tlogs), Cell_float (precision tlogs), Cell_float (recall tlogs),
      Cell_float (f2 tlogs), Cell_float (accuracy tlogs), Cell_float (dice tlogs)]"

text \<open>The validation loss that the epoch run from a state computes, when both passes return.\<close>

definition epoch_val_loss ::
  "('x, 'm, 's, 'o option, 'r) library \<Rightarrow> ('o, 'r) trainer \<Rightarrow> pyfloat option"
where
  "epoch_val_loss env s =
     (case train_one_epoch env s of
        Inl e \<Rightarrow> None
      | Inr t \<Rightarrow> (case validate env (snd t) of Inl e \<Rightarrow> None | Inr v \<Rightarrow> Some (fst (fst v))))"

text \<open>The validation losses of the epochs of a run, in order, as far as the run gets.\<close>

fun val_history ::
  "('x, 'm, 's, 'o option, 'r) library \<Rightarrow> nat list \<Rightarrow> ('o, 'r) trainer \<Rightarrow> pyfloat list"
where
  "val_history env [] s = []"
| "val_history env (k # ks) s =
     (case epoch_val_loss env s of
        None \<Rightarrow> []
      | Some v \<Rightarrow>
          v # (case train_epoch env (int k) s of
                 Inl e \<Rightarrow> []
               | Inr s1 \<Rightarrow> val_history env ks s1))"

text \<open>A data row of the metrics file for the epoch numbered \<open>ep\<close>.\<close>

definition epoch_row :: "int \<Rightarrow> cell list \<Rightarrow> bool" where
  "epoch_row ep row = (\<exists>g d v logs tlogs. row = csv_row ep g d v logs tlogs)"

text \<open>
  The number of columns of the metrics file as the spec words them: the epoch, a generator
  and a discriminator loss for each of the training and validation phases, and six
  metrics for each phase.
\<close>

definition spec_column_count :: nat where
  "spec_column_count = 1 + 2 * 2 + 2 * 6"

definition is_loss_column :: "string \<Rightarrow> bool" where
  "is_loss_column f = (drop (length f - 4) f = ''loss'')"

text \<open>Whether a call returned rather than raised.\<close>

definition returns :: "'e + 'a \<Rightarrow> bool" where
  "returns r = (case r of Inl e \<Rightarrow> False | Inr a \<Rightarrow> True)"

text \<open>The demonstration library with a second validation batch whose loss is NaN.\<close>

definition demo_val_nan_library :: "(real, real, real, nat option, nat) library" where
  "demo_val_nan_library = demo_library\<lparr>val_batches := [(1, 2), (1, - 1)]\<rparr>"

section \<open>Lemmas about the steps and the loops\<close>

lemma step_param_frame:
  "grads (snd (step_param env p om)) = grads (snd om)"
  "generator_parameters (snd (step_param env p om)) = generator_parameters (snd om)"
  "discriminator_parameters (snd (step_param env p om)) = discriminator_parameters (snd om)"
  "training (snd (step_param env p om)) = training (snd om)"
  "lr (fst (step_param env p om)) = lr (fst om)"
  "betas (fst (step_param env p om)) = betas (fst om)"
  "param_ids (fst (step_param env p om)) = param_ids (fst om)"
  "q \<noteq> p \<Longrightarrow> weights (snd (step_param env p om)) q = weights (snd om) q"
  "q \<noteq> p \<Longrightarrow> opt_state (fst (step_param env p om)) q = opt_state (fst om) q"
  by (simp_all add: step_param_def Let_def split: option.splits)

lemma fold_step_param_frame:
  "grads (snd (fold (step_param env) ps om)) = grads (snd om)
   \<and> generator_parameters (snd (fold (step_param env) ps om)) = generator_parameters (snd om)
   \<and> discriminator_parameters (snd (fold (step_param env) ps om)) = discriminator_parameters (snd om)
   \<and> training (snd (fold (step_param env) ps om)) = training (snd om)
   \<and> lr (fst (fold (step_param env) ps om)) = lr (fst om)
   \<and> betas (fst (fold (step_param env) ps om)) = betas (fst om)
   \<and> param_ids (fst (fold (step_param env) ps om)) = param_ids (fst om)
   \<and> (q \<notin> set ps \<longrightarrow> weights (snd (fold (step_param env) ps om)) q = weights (snd om) q)
   \<and> (q \<notin> set ps \<longrightarrow> opt_state (fst (fold (step_param env) ps om)) q = opt_state (fst om) q)"
  by (induction ps arbitrary: om) (simp_all add: step_param_frame)

lemma optimizer_step_frame:
  "grads (snd (optimizer_step env opt m)) = grads m"
  "generator_parameters (snd (optimizer_step env opt m)) = generator_parameters m"
  "discriminator_parameters (snd (optimizer_step env opt m)) = discriminator_parameters m"
  "training (snd (optimizer_step env opt m)) = training m"
  "lr (fst (optimizer_step env opt m)) = lr opt"
  "betas (fst (optimizer_step env opt m)) = betas opt"
  "param_ids (fst (optimizer_step env opt m)) = param_ids opt"
  "q \<notin> set (param_ids opt) \<Longrightarrow> weights (snd (optimizer_step env opt m)) q = weights m q"
  "q \<notin> set (param_ids opt) \<Longrightarrow> opt_state (fst (optimizer_step env opt m)) q = opt_state opt q"
  using fold_step_param_frame [of env "param_ids opt" "(opt, m)" q]
  by (simp_all add: optimizer_step_def)

lemma gen_out_cong:
  "training (model s') = training (model s) \<Longrightarrow> weights (model s') = weights (model s) \<Longrightarrow>
   generator_parameters (model s') = generator_parameters (model s) \<Longrightarrow>
   world s' = world s \<Longrightarrow> gen_out env s' x = gen_out env s x"
  by (simp add: gen_out_def)

lemma disc_out_cong:
  "training (model s') = training (model s) \<Longrightarrow> weights (model s') = weights (model s) \<Longrightarrow>
   discriminator_parameters (model s') = discriminator_parameters (model s) \<Longrightarrow>
   world s' = world s \<Longrightarrow> disc_out env s' x m = disc_out env s x m"
  by (simp add: disc_out_def)

lemma generate_eq:
  "generate env b x s =
     (\<lparr>tdata = fst (gen_out env s x),
       leaves = (if b then generator_parameters (model s) else [])\<rparr>,
      s\<lparr>world := snd (gen_out env s x)\<rparr>)"
  by (simp add: generate_def gen_out_def Let_def)

lemma discriminator_eq:
  "discriminator env x m s =
     (\<lparr>tdata = fst (disc_out env s x (tdata m)),
       leaves = discriminator_parameters (model s) @ leaves m\<rparr>,
      s\<lparr>world := snd (disc_out env s x (tdata m))\<rparr>)"
  by (simp add: discriminator_def disc_out_def Let_def)

lemma zero_grad_simps [simp]:
  "weights (zero_grad opt m) = weights m"
  "training (zero_grad opt m) = training m"
  "generator_parameters (zero_grad opt m) = generator_parameters m"
  "discriminator_parameters (zero_grad opt m) = discriminator_parameters m"
  "grads (zero_grad opt m) p = (if p \<in> set (param_ids opt) then None else grads m p)"
  by (simp_all add: zero_grad_def)

lemma backward_simps [simp]:
  "weights (backward l m) = weights m"
  "training (backward l m) = training m"
  "generator_parameters (backward l m) = generator_parameters m"
  "discriminator_parameters (backward l m) = discriminator_parameters m"
  "p \<notin> set (graph l) \<Longrightarrow> grads (backward l m) p = grads m p"
  by (simp_all add: backward_def)

lemma train_generator_eq:
  "train_generator env data targets s =
     (if item (gen_loss_t env data targets s) = NaN
      then Inl (ValueError ''NaN in g_seg_loss'',
                s\<lparr>model := zero_grad (optimizer_G s) (model s),
                  world := snd (gen_out env s data),
                  logger := logger s @ [Log_error ''NaN detected in g_seg_loss'']\<rparr>)
      else Inr ((item (gen_loss_t env data targets s),
                 \<lparr>tdata = fst (gen_out env s data), leaves = generator_parameters (model s)\<rparr>),
                s\<lparr>model := snd (gen_om env data targets s),
                  world := snd (gen_out env s data),
                  optimizer_G := fst (gen_om env data targets s)\<rparr>))"
proof -
  define s1 where "s1 = s\<lparr>model := zero_grad (optimizer_G s) (model s)\<rparr>"
  have go: "gen_out env s1 data = gen_out env s data"
    by (rule gen_out_cong) (simp_all add: s1_def)
  have gen: "generate env True data s1
      = (\<lparr>tdata = fst (gen_out env s data), leaves = generator_parameters (model s)\<rparr>,
         s1\<lparr>world := snd (gen_out env s data)\<rparr>)"
    by (simp add: generate_eq go) (simp add: s1_def)
  have step: "train_generator env data targets s =
     (let fake_masks = fst (generate env True data s1);
          s2 = snd (generate env True data s1);
          g_seg_loss = generator_loss env fake_masks targets
      in if check_loss_nan (item g_seg_loss)
         then Inl (ValueError ''NaN in g_seg_loss'',
                   logger_error ''NaN detected in g_seg_loss'' s2)
         else (let s3 = s2\<lparr>model := backward g_seg_loss (model s2)\<rparr>;
                   om = optimizer_step env (optimizer_G s3) (model s3);
                   s4 = s3\<lparr>optimizer_G := fst om, model := snd om\<rparr>
               in Inr ((item g_seg_loss, fake_masks), s4)))"
    by (simp only: train_generator_def Let_def s1_def)
  show ?thesis
    unfolding step gen fst_conv snd_conv
    by (simp add: Let_def check_loss_nan_def gen_loss_t_def gen_om_def logger_error_def s1_def)
qed

lemma loss_add_simps [simp]:
  "item (loss_add a b) = fadd (item a) (item b)"
  "graph (loss_add a b) = graph a @ graph b"
  by (simp_all add: loss_add_def)

lemma train_discriminator_eq:
  "train_discriminator env data fk targets s =
     (if item (d_real_t env data targets s) = NaN
      then Inl (ValueError ''NaN in d_real_loss'',
                s\<lparr>model := zero_grad (optimizer_D s) (model s),
                  world := snd (disc_fake env data fk targets s),
                  logger := logger s @ [Log_error ''NaN detected in d_real_loss'']\<rparr>)
      else if item (d_fake_t env data fk targets s) = NaN
      then Inl (ValueError ''NaN in d_fake_loss'',
                s\<lparr>model := zero_grad (optimizer_D s) (model s),
                  world := snd (disc_fake env data fk targets s),
                  logger := logger s @ [Log_error ''NaN detected in d_fake_loss'']\<rparr>)
      else Inr (fadd (item (d_real_t env data targets s)) (item (d_fake_t env data fk targets s)),
                s\<lparr>model := snd (disc_om env data fk targets s),
                  world := snd (disc_fake env data fk targets s),
                  optimizer_D := fst (disc_om env data fk targets s)\<rparr>))"
proof -
  define s1 where "s1 = s\<lparr>model := zero_grad (optimizer_D s) (model s)\<rparr>"
  define w1 where "w1 = snd (disc_real env data targets s)"
  define w2 where "w2 = snd (disc_fake env data fk targets s)"
  have r0: "disc_out env s1 data targets = disc_real env data targets s"
    unfolding disc_real_def by (rule disc_out_cong) (simp_all add: s1_def)
  have r: "discriminator env data (plain targets) s1
      = (\<lparr>tdata = fst (disc_real env data targets s),
          leaves = discriminator_parameters (model s)\<rparr>, s1\<lparr>world := w1\<rparr>)"
    by (simp add: discriminator_eq plain_def r0 w1_def) (simp add: s1_def)
  have f0: "disc_out env (s1\<lparr>world := w1\<rparr>) data (tdata fk) = disc_fake env data fk targets s"
    unfolding disc_fake_def w1_def by (rule disc_out_cong) (simp_all add: s1_def)
  have f: "discriminator env data (detach fk) (s1\<lparr>world := w1\<rparr>)
      = (\<lparr>tdata = fst (disc_fake env data fk targets s),
          leaves = discriminator_parameters (model s)\<rparr>, s1\<lparr>world := w2\<rparr>)"
    by (simp add: discriminator_eq detach_def f0 w2_def) (simp add: s1_def)
  show ?thesis
    apply (simp only: train_discriminator_def Let_def)
    apply (simp only: s1_def [symmetric])
    apply (simp only: r fst_conv snd_conv f)
    apply (simp add: check_loss_nan_def d_real_t_def d_fake_t_def disc_om_def
        logger_error_def s1_def w2_def)
    done
qed

lemma gen_om_simps [simp]:
  "lr (fst (gen_om env d t s)) = lr (optimizer_G s)"
  "betas (fst (gen_om env d t s)) = betas (optimizer_G s)"
  "param_ids (fst (gen_om env d t s)) = param_ids (optimizer_G s)"
  "generator_parameters (snd (gen_om env d t s)) = generator_parameters (model s)"
  "discriminator_parameters (snd (gen_om env d t s)) = discriminator_parameters (model s)"
  "training (snd (gen_om env d t s)) = training (model s)"
  by (simp_all add: gen_om_def optimizer_step_frame)

lemma disc_om_simps [simp]:
  "lr (fst (disc_om env d f t s)) = lr (optimizer_D s)"
  "betas (fst (disc_om env d f t s)) = betas (optimizer_D s)"
  "param_ids (fst (disc_om env d f t s)) = param_ids (optimizer_D s)"
  "generator_parameters (snd (disc_om env d f t s)) = generator_parameters (model s)"
  "discriminator_parameters (snd (disc_om env d f t s)) = discriminator_parameters (model s)"
  "training (snd (disc_om env d f t s)) = training (model s)"
  by (simp_all add: disc_om_def optimizer_step_frame)

lemma gen_om_weights:
  "p \<notin> set (param_ids (optimizer_G s)) \<Longrightarrow>
   weights (snd (gen_om env d t s)) p = weights (model s) p"
  by (simp add: gen_om_def optimizer_step_frame)

lemma disc_om_weights:
  "p \<notin> set (param_ids (optimizer_D s)) \<Longrightarrow>
   weights (snd (disc_om env d f t s)) p = weights (model s) p"
  by (simp add: disc_om_def optimizer_step_frame)

lemma disc_om_grads:
  "p \<notin> set (param_ids (optimizer_D s)) \<Longrightarrow> p \<notin> set (discriminator_parameters (model s)) \<Longrightarrow>
   grads (snd (disc_om env d f t s)) p = grads (model s) p"
  by (simp add: disc_om_def optimizer_step_frame d_real_t_def d_fake_t_def
      discriminator_loss_def)

lemma gen_om_grads:
  "p \<notin> set (param_ids (optimizer_G s)) \<Longrightarrow> p \<notin> set (generator_parameters (model s)) \<Longrightarrow>
   grads (snd (gen_om env d t s)) p = grads (model s) p"
  by (simp add: gen_om_def optimizer_step_frame gen_loss_t_def generator_loss_def)

lemma train_generator_ledger:
  "train_generator env data targets s = Inl (e, s') \<Longrightarrow> ledger s' = ledger s"
  "train_generator env data targets s = Inr (a, s') \<Longrightarrow> ledger s' = ledger s"
  by (auto simp add: train_generator_eq ledger_def split: if_splits)

lemma train_discriminator_ledger:
  "train_discriminator env data fk targets s = Inl (e, s') \<Longrightarrow> ledger s' = ledger s"
  "train_discriminator env data fk targets s = Inr (a, s') \<Longrightarrow> ledger s' = ledger s"
  by (auto simp add: train_discriminator_eq ledger_def split: if_splits)

lemma pbar_update_enabled [simp]: "\<not> tqdm_disable env \<Longrightarrow> pbar_update env n k = n + k"
  by (simp add: pbar_update_def)

lemma pbar_update_disabled [simp]: "tqdm_disable env \<Longrightarrow> pbar_update env n k = n"
  by (simp add: pbar_update_def)

lemma metrics_div_Suc [simp]: "metrics_div ms (Suc n) = Inr (averaged ms (Suc n))"
  by (simp add: metrics_div_def)

lemma py_truediv_Suc [simp]: "py_truediv x (Suc n) = Inr (fdiv x (Suc n))"
  by (simp add: py_truediv_def)

lemma train_generator_not_nan:
  "train_generator env data targets s = Inr ((gl, fk), s1) \<Longrightarrow> gl \<noteq> NaN"
  by (auto simp add: train_generator_eq split: if_splits)

lemma train_batch_InrE:
  assumes "train_batch env b acc s = Inr (acc', s')"
  obtains gl fk s1 dl s2 where
    "train_generator env (to_float32_x env (fst b)) (to_float32_m env (snd b)) s
       = Inr ((gl, fk), s1)"
    "train_discriminator env (to_float32_x env (fst b)) fk (to_float32_m env (snd b)) s1
       = Inr (dl, s2)"
    "gl \<noteq> NaN" "dl \<noteq> NaN" "pbar_update env (train_n acc) 1 \<noteq> 0"
    "s' = s2\<lparr>progress := progress s2
             @ [Train_postfix gl dl
                  (averaged (accumulate (segmentation_metrics env (tdata fk)
                       (to_float32_m env (snd b))) (train_metrics acc)) (pbar_update env (train_n acc) 1))],
            world := snd (pbar_iter env (world s2))\<rparr>"
    "acc' = \<lparr>total_g_loss = fadd (total_g_loss acc) gl,
             total_d_loss = fadd (total_d_loss acc) dl,
             train_metrics = accumulate (segmentation_metrics env (tdata fk)
                       (to_float32_m env (snd b))) (train_metrics acc),
             train_n = pbar_update env (train_n acc) 1 + fst (pbar_iter env (world s2)),
             train_logs = Some (averaged (accumulate (segmentation_metrics env (tdata fk)
                       (to_float32_m env (snd b))) (train_metrics acc)) (pbar_update env (train_n acc) 1))\<rparr>"
proof -
  define X where "X = to_float32_x env (fst b)"
  define T where "T = to_float32_m env (snd b)"
  show ?thesis
  proof (cases "train_generator env X T s")
    case (Inl e)
    with assms show ?thesis by (simp add: train_batch_def X_def T_def)
  next
    case (Inr gr)
    obtain gl fk s1 where gr: "gr = ((gl, fk), s1)" by (cases gr) auto
    have gl: "gl \<noteq> NaN" using Inr gr train_generator_not_nan by fastforce
    show ?thesis
    proof (cases "train_discriminator env X fk T s1")
      case (Inl e)
      with assms Inr gr gl show ?thesis
        by (simp add: train_batch_def X_def T_def Let_def check_loss_nan_def)
    next
      case dr: (Inr dr)
      obtain dl s2 where d: "dr = (dl, s2)" by (cases dr) auto
      show ?thesis
      proof (cases "dl = NaN")
        case True
        with assms Inr gr gl dr d show ?thesis
          by (simp add: train_batch_def X_def T_def Let_def check_loss_nan_def)
      next
        case False
        have n: "pbar_update env (train_n acc) 1 \<noteq> 0"
        proof
          assume "pbar_update env (train_n acc) 1 = 0"
          with assms Inr gr gl dr d False show False
            by (simp add: train_batch_def X_def T_def Let_def check_loss_nan_def metrics_div_def)
        qed
        have "train_batch env b acc s = Inr (
           \<lparr>total_g_loss = fadd (total_g_loss acc) gl,
             total_d_loss = fadd (total_d_loss acc) dl,
             train_metrics = accumulate (segmentation_metrics env (tdata fk) T) (train_metrics acc),
             train_n = pbar_update env (train_n acc) 1 + fst (pbar_iter env (world s2)),
             train_logs = Some (averaged (accumulate (segmentation_metrics env (tdata fk) T)
                 (train_metrics acc)) (pbar_update env (train_n acc) 1))\<rparr>,
           s2\<lparr>progress := progress s2
             @ [Train_postfix gl dl
                  (averaged (accumulate (segmentation_metrics env (tdata fk) T)
                     (train_metrics acc)) (pbar_update env (train_n acc) 1))],
            world := snd (pbar_iter env (world s2))\<rparr>)"
          using Inr gr gl dr d False n
          by (simp add: train_batch_def X_def [symmetric] T_def [symmetric] Let_def
              check_loss_nan_def metrics_div_def)
        with assms have "acc' = \<lparr>total_g_loss = fadd (total_g_loss acc) gl,
             total_d_loss = fadd (total_d_loss acc) dl,
             train_metrics = accumulate (segmentation_metrics env (tdata fk) T) (train_metrics acc),
             train_n = pbar_update env (train_n acc) 1 + fst (pbar_iter env (world s2)),
             train_logs = Some (averaged (accumulate (segmentation_metrics env (tdata fk) T)
                 (train_metrics acc)) (pbar_update env (train_n acc) 1))\<rparr>"
          and "s' = s2\<lparr>progress := progress s2
             @ [Train_postfix gl dl
                  (averaged (accumulate (segmentation_metrics env (tdata fk) T)
                     (train_metrics acc)) (pbar_update env (train_n acc) 1))],
            world := snd (pbar_iter env (world s2))\<rparr>"
          by simp_all
        with that [of gl fk s1 dl s2] Inr gr dr d gl False n show ?thesis
          by (simp add: X_def T_def)
      qed
    qed
  qed
qed

lemma train_batch_InlE:
  assumes "train_batch env b acc s = Inl (e, s')"
  obtains (gen) "train_generator env (to_float32_x env (fst b)) (to_float32_m env (snd b)) s
       = Inl (e, s')"
  | (disc) gl fk s1 where
      "train_generator env (to_float32_x env (fst b)) (to_float32_m env (snd b)) s
         = Inr ((gl, fk), s1)"
      "train_discriminator env (to_float32_x env (fst b)) fk (to_float32_m env (snd b)) s1
         = Inl (e, s')"
  | (dnan) gl fk s1 s2 where
      "train_generator env (to_float32_x env (fst b)) (to_float32_m env (snd b)) s
         = Inr ((gl, fk), s1)"
      "train_discriminator env (to_float32_x env (fst b)) fk (to_float32_m env (snd b)) s1
         = Inr (NaN, s2)"
      "e = ValueError ''NaN in discriminator loss''"
      "s' = logger_error ''NaN detected in discriminator loss. Stopping training.'' s2"
  | (div) gl fk s1 dl where
      "train_generator env (to_float32_x env (fst b)) (to_float32_m env (snd b)) s
         = Inr ((gl, fk), s1)"
      "train_discriminator env (to_float32_x env (fst b)) fk (to_float32_m env (snd b)) s1
         = Inr (dl, s')"
      "dl \<noteq> NaN" "pbar_update env (train_n acc) 1 = 0" "e = ZeroDivisionError"
proof -
  define X where "X = to_float32_x env (fst b)"
  define T where "T = to_float32_m env (snd b)"
  show ?thesis
  proof (cases "train_generator env X T s")
    case (Inl e0)
    with assms have "train_generator env X T s = Inl (e, s')"
      by (simp add: train_batch_def X_def T_def)
    with gen show ?thesis by (simp add: X_def T_def)
  next
    case (Inr gr)
    obtain gl fk s1 where gr: "gr = ((gl, fk), s1)" by (cases gr) auto
    have gl: "gl \<noteq> NaN" using Inr gr train_generator_not_nan by fastforce
    show ?thesis
    proof (cases "train_discriminator env X fk T s1")
      case (Inl e0)
      with assms Inr gr gl have "train_discriminator env X fk T s1 = Inl (e, s')"
        by (simp add: train_batch_def X_def T_def Let_def check_loss_nan_def)
      with disc [of gl fk s1] Inr gr show ?thesis by (simp add: X_def T_def)
    next
      case dr: (Inr dr)
      obtain dl s2 where d: "dr = (dl, s2)" by (cases dr) auto
      show ?thesis
      proof (cases "dl = NaN")
        case True
        with assms Inr gr gl dr d
        have "e = ValueError ''NaN in discriminator loss''"
          "s' = logger_error ''NaN detected in discriminator loss. Stopping training.'' s2"
          by (simp_all add: train_batch_def X_def T_def Let_def check_loss_nan_def)
        with dnan [of gl fk s1 s2] Inr gr dr d True show ?thesis by (simp add: X_def T_def)
      next
        case False
        show ?thesis
        proof (cases "pbar_update env (train_n acc) 1 = 0")
          case True
          with assms Inr gr gl dr d False
          have "e = ZeroDivisionError" "s' = s2"
            by (simp_all add: train_batch_def X_def T_def Let_def check_loss_nan_def
                metrics_div_def)
          with div [of gl fk s1 dl] Inr gr dr d False True show ?thesis
            by (simp add: X_def T_def)
        next
          case n: False
          with assms Inr gr gl dr d False show ?thesis
            by (simp add: train_batch_def X_def T_def Let_def check_loss_nan_def
                metrics_div_def)
        qed
      qed
    qed
  qed
qed

lemma nan_failure_logged:
  "(m, l) \<in> set nan_sites \<Longrightarrow> nan_failure (ValueError m) (s\<lparr>logger := xs @ [Log_error l]\<rparr>)"
  unfolding nan_failure_def by (rule bexI [of _ "(m, l)"]) simp_all

lemma nan_failure_upd [simp]:
  "nan_failure e (s\<lparr>world := w\<rparr>) = nan_failure e s"
  "nan_failure e (s\<lparr>progress := p\<rparr>) = nan_failure e s"
  "nan_failure e (s\<lparr>model := m\<rparr>) = nan_failure e s"
  by (simp_all add: nan_failure_def)

lemma train_generator_failure:
  "train_generator env data targets s = Inl (e, s') \<Longrightarrow> nan_failure e s'"
  by (auto simp add: train_generator_eq nan_sites_def split: if_splits
      intro!: nan_failure_logged)

lemma train_discriminator_failure:
  "train_discriminator env data fk targets s = Inl (e, s') \<Longrightarrow> nan_failure e s'"
  by (auto simp add: train_discriminator_eq nan_sites_def split: if_splits
      intro!: nan_failure_logged)

lemma train_batch_failure:
  assumes "train_batch env b acc s = Inl (e, s')"
  shows "e = ZeroDivisionError \<or> nan_failure e s'"
  using assms
proof (cases rule: train_batch_InlE)
  case gen
  then show ?thesis by (auto dest: train_generator_failure)
next
  case (disc gl fk s1)
  then show ?thesis by (auto dest: train_discriminator_failure)
next
  case (dnan gl fk s1 s2)
  then show ?thesis
    by (auto simp add: logger_error_def nan_sites_def intro!: nan_failure_logged)
next
  case (div gl fk s1 dl)
  then show ?thesis by simp
qed

lemma ledger_upd [simp]:
  "ledger (s\<lparr>world := w\<rparr>) = ledger s"
  "ledger (s\<lparr>logger := l\<rparr>) = ledger s"
  "ledger (s\<lparr>progress := p\<rparr>) = ledger s"
  by (simp_all add: ledger_def)

lemma train_batch_ledger:
  "train_batch env b acc s = Inl (e, s') \<Longrightarrow> ledger s' = ledger s"
  "train_batch env b acc s = Inr (acc', s') \<Longrightarrow> ledger s' = ledger s"
proof -
  assume "train_batch env b acc s = Inl (e, s')"
  then show "ledger s' = ledger s"
  proof (cases rule: train_batch_InlE)
    case gen
    then show ?thesis by (rule train_generator_ledger)
  next
    case (disc gl fk s1)
    then show ?thesis
      using train_generator_ledger(2) train_discriminator_ledger(1) by metis
  next
    case (dnan gl fk s1 s2)
    then show ?thesis
      using train_generator_ledger(2) [of env _ _ s _ s1]
        train_discriminator_ledger(2) [of env _ _ _ s1 _ s2]
      by (simp add: logger_error_def)
  next
    case (div gl fk s1 dl)
    then show ?thesis
      using train_generator_ledger(2) [of env _ _ s _ s1]
        train_discriminator_ledger(2) [of env _ _ _ s1 _ s']
      by simp
  qed
next
  assume "train_batch env b acc s = Inr (acc', s')"
  then show "ledger s' = ledger s"
  proof (cases rule: train_batch_InrE)
    case (1 gl fk s1 dl s2)
    then show ?thesis
      using train_generator_ledger(2) [of env _ _ s _ s1]
        train_discriminator_ledger(2) [of env _ _ _ s1 _ s2]
      by simp
  qed
qed

lemma train_loop_ledger:
  "train_loop env bs acc s = Inl (e, s') \<Longrightarrow> ledger s' = ledger s"
  "train_loop env bs acc s = Inr (acc', s') \<Longrightarrow> ledger s' = ledger s"
proof (induction bs arbitrary: acc s)
  case Nil
  { case 1 then show ?case by simp }
  { case 2 then show ?case by simp }
next
  case (Cons b bs)
  { case 1
    show ?case
    proof (cases "train_batch env b acc s")
      case (Inl x)
      with 1 have "train_batch env b acc s = Inl (e, s')" by simp
      then show ?thesis by (rule train_batch_ledger)
    next
      case (Inr r)
      obtain a1 s1 where r: "r = (a1, s1)" by (cases r) auto
      with 1 Inr have "train_loop env bs a1 s1 = Inl (e, s')" by simp
      then have "ledger s' = ledger s1" by (rule Cons.IH(1))
      moreover have "ledger s1 = ledger s" using Inr r train_batch_ledger(2) by metis
      ultimately show ?thesis by simp
    qed }
  { case 2
    show ?case
    proof (cases "train_batch env b acc s")
      case (Inl x)
      with 2 show ?thesis by simp
    next
      case (Inr r)
      obtain a1 s1 where r: "r = (a1, s1)" by (cases r) auto
      with 2 Inr have "train_loop env bs a1 s1 = Inr (acc', s')" by simp
      then have "ledger s' = ledger s1" by (rule Cons.IH(2))
      moreover have "ledger s1 = ledger s" using Inr r train_batch_ledger(2) by metis
      ultimately show ?thesis by simp
    qed }
qed

lemma train_loop_failure:
  "train_loop env bs acc s = Inl (e, s') \<Longrightarrow> e = ZeroDivisionError \<or> nan_failure e s'"
proof (induction bs arbitrary: acc s)
  case Nil
  then show ?case by simp
next
  case (Cons b bs)
  show ?case
  proof (cases "train_batch env b acc s")
    case (Inl x)
    with Cons.prems have "train_batch env b acc s = Inl (e, s')" by simp
    then show ?thesis by (rule train_batch_failure)
  next
    case (Inr r)
    with Cons.prems have "train_loop env bs (fst r) (snd r) = Inl (e, s')" by simp
    then show ?thesis by (rule Cons.IH)
  qed
qed

lemma train_batch_enabled_failure:
  assumes "train_batch env b acc s = Inl (e, s')" and "\<not> tqdm_disable env"
  shows "nan_failure e s'"
  using assms(1)
proof (cases rule: train_batch_InlE)
  case gen
  then show ?thesis by (rule train_generator_failure)
next
  case (disc gl fk s1)
  then show ?thesis by (auto dest: train_discriminator_failure)
next
  case (dnan gl fk s1 s2)
  then show ?thesis
    by (auto simp add: logger_error_def nan_sites_def intro!: nan_failure_logged)
next
  case (div gl fk s1 dl)
  with assms(2) show ?thesis by simp
qed

lemma train_loop_enabled_failure:
  "train_loop env bs acc s = Inl (e, s') \<Longrightarrow> \<not> tqdm_disable env \<Longrightarrow> nan_failure e s'"
proof (induction bs arbitrary: acc s)
  case Nil
  then show ?case by simp
next
  case (Cons b bs)
  show ?case
  proof (cases "train_batch env b acc s")
    case (Inl x)
    with Cons.prems have "train_batch env b acc s = Inl (e, s')" by simp
    then show ?thesis using Cons.prems(2) by (rule train_batch_enabled_failure)
  next
    case (Inr r)
    with Cons.prems have "train_loop env bs (fst r) (snd r) = Inl (e, s')" by simp
    then show ?thesis using Cons.prems(2) by (rule Cons.IH)
  qed
qed

lemma train_loop_logs:
  "train_loop env bs acc s = Inr (acc', s') \<Longrightarrow> bs \<noteq> [] \<or> train_logs acc \<noteq> None
   \<Longrightarrow> train_logs acc' \<noteq> None"
proof (induction bs arbitrary: acc s)
  case Nil
  then show ?case by simp
next
  case (Cons b bs)
  show ?case
  proof (cases "train_batch env b acc s")
    case (Inl x)
    with Cons.prems show ?thesis by simp
  next
    case (Inr r)
    obtain a1 s1 where r: "r = (a1, s1)" by (cases r) auto
    with Cons.prems Inr have loop: "train_loop env bs a1 s1 = Inr (acc', s')" by simp
    have "train_logs a1 \<noteq> None"
      using Inr [unfolded r] by (cases rule: train_batch_InrE) simp
    with loop show ?thesis by (intro Cons.IH [of a1 s1]) simp_all
  qed
qed

lemma demo_trainer_simps:
  "model demo_trainer = demo_model"
  "world demo_trainer = 0"
  "optimizer_G demo_trainer = new_adam [0] (1 / 10) (1 / 2, 9 / 10)"
  "optimizer_D demo_trainer = new_adam [1] (1 / 10) (1 / 2, 9 / 10)"
  "logger demo_trainer = []"
  "progress demo_trainer = []"
  by (simp_all add: demo_trainer_def init_def setup_logging_def setup_training_def Let_def
      demo_model_def demo_config_def)

lemma demo_library_simps:
  "gen_forward demo_library = (\<lambda>tr ws r x. (sum_list ws * x, r + 1))"
  "disc_forward demo_library = (\<lambda>tr ws r x m. (sum_list ws * m, r + 1))"
  "combined_loss demo_library = (\<lambda>out tg. if tg < 0 then NaN else Fin (abs (out - tg)))"
  "combined_loss_grad demo_library = (\<lambda>out tg p. - 1)"
  "bce_loss demo_library = (\<lambda>sc lab. if sc < 0 then NaN else Fin (abs (sc - lab)))"
  "bce_loss_grad demo_library = (\<lambda>sc lab p. 1)"
  "ones_like demo_library = (\<lambda>sc. 1)"
  "zeros_like demo_library = (\<lambda>sc. 0)"
  "mul_scalar demo_library = (\<lambda>sc c. sc * c)"
  "adam_update demo_library = (\<lambda>rate bs st w g.
         (w - rate * g, Some (case st of None \<Rightarrow> 1 | Some k \<Rightarrow> k + 1)))"
  "segmentation_metrics demo_library
     = (\<lambda>a b. [(''mean_iou'', Fin 1), (''dice'', Fin (1 / 2))])"
  "to_float32_x demo_library = (\<lambda>x. x)"
  "to_float32_m demo_library = (\<lambda>m. m)"
  "train_batches demo_library = (\<lambda>r. ([(1, 2)], r + 1))"
  "val_batches demo_library = [(1, 2), (1, 4)]"
  "tqdm_refresh demo_library = (\<lambda>r. (0, r))"
  "tqdm_disable demo_library = False"
  by (simp_all add: demo_library_def)

lemma demo_gen_out: "gen_out demo_library demo_trainer x = (x, 1)"
  by (simp add: gen_out_def demo_trainer_simps demo_library_simps demo_model_def)

lemma demo_disc_real: "disc_real demo_library x t demo_trainer = (t, 1)"
  by (simp add: disc_real_def disc_out_def demo_trainer_simps demo_library_simps demo_model_def)

lemma demo_disc_fake: "disc_fake demo_library x fk t demo_trainer = (tdata fk, 2)"
  by (simp add: disc_fake_def disc_out_def demo_disc_real demo_trainer_simps
      demo_library_simps demo_model_def)

lemma disc_om_grads_in:
  "p \<in> set (param_ids (optimizer_D s)) \<Longrightarrow> p \<in> set (discriminator_parameters (model s)) \<Longrightarrow>
   grads (snd (disc_om env d f t s)) p
     = Some (grad_wrt (d_real_t env d t s) p + grad_wrt (d_fake_t env d f t s) p)"
  by (simp add: disc_om_def optimizer_step_frame backward_def zero_grad_def loss_add_def
      d_real_t_def d_fake_t_def discriminator_loss_def)

lemma demo_eval_simps:
  "generator_parameters demo_model = [0]"
  "discriminator_parameters demo_model = [1]"
  "weights demo_model = (\<lambda>p. 1)"
  "grads demo_model = (\<lambda>p. None)"
  "training demo_model = False"
  by (simp_all add: demo_model_def)

lemma demo_train_discriminator:
  "\<exists>s'. train_discriminator demo_library 1 \<lparr>tdata = 1, leaves = [0]\<rparr> 2 demo_trainer
     = Inr (Fin (21 / 10), s')"
  by (simp add: train_discriminator_eq d_real_t_def d_fake_t_def discriminator_loss_def
      demo_disc_real demo_disc_fake demo_library_simps)

lemma demo_train_batch:
  "\<exists>acc' s'. train_batch demo_library (1, 2) train_acc0 demo_trainer = Inr (acc', s')"
  by (simp add: train_batch_def Let_def train_generator_eq train_discriminator_eq
      check_loss_nan_def gen_loss_t_def generator_loss_def demo_gen_out
      d_real_t_def d_fake_t_def discriminator_loss_def disc_real_def disc_fake_def disc_out_def
      demo_library_simps gen_om_weights demo_trainer_simps demo_eval_simps new_adam_def)

lemma validate_batch_eq:
  "validate_batch env b acc s =
     (if combined_loss env (fst (gen_out env s (to_float32_x env (fst b))))
           (to_float32_m env (snd b)) = NaN
      then Inl (ValueError ''NaN in val_loss'',
                s\<lparr>world := snd (gen_out env s (to_float32_x env (fst b))),
                  logger := logger s @ [Log_error ''NaN detected in val_loss'']\<rparr>)
      else if pbar_update env (val_n acc) 1 = 0
      then Inl (ZeroDivisionError,
                s\<lparr>world := snd (gen_out env s (to_float32_x env (fst b)))\<rparr>)
      else Inr (\<lparr>total_val_loss = fadd (total_val_loss acc)
                    (combined_loss env (fst (gen_out env s (to_float32_x env (fst b))))
                       (to_float32_m env (snd b))),
                 val_sums = accumulate (segmentation_metrics env
                       (fst (gen_out env s (to_float32_x env (fst b))))
                       (to_float32_m env (snd b))) (val_sums acc),
                 val_n = pbar_update env (val_n acc) 1\<rparr>,
                s\<lparr>world := snd (gen_out env s (to_float32_x env (fst b))),
                  progress := progress s
                    @ [Val_postfix
                         \<lparr>val_loss = fdiv (combined_loss env
                               (fst (gen_out env s (to_float32_x env (fst b))))
                               (to_float32_m env (snd b))) (pbar_update env (val_n acc) 1),
                          val_metrics = averaged (accumulate (segmentation_metrics env
                               (fst (gen_out env s (to_float32_x env (fst b))))
                               (to_float32_m env (snd b))) (val_sums acc))
                             (pbar_update env (val_n acc) 1)\<rparr>]\<rparr>))"
  by (simp add: validate_batch_def Let_def generate_eq generator_loss_def check_loss_nan_def
      logger_error_def py_truediv_def metrics_div_def)

lemma validate_batch_ledger:
  "validate_batch env b acc s = Inl (e, s') \<Longrightarrow> ledger s' = ledger s"
  "validate_batch env b acc s = Inr (acc', s') \<Longrightarrow> ledger s' = ledger s"
  by (auto simp add: validate_batch_eq split: if_splits)

lemma validate_batch_model:
  "validate_batch env b acc s = Inl (e, s') \<Longrightarrow> model s' = model s"
  "validate_batch env b acc s = Inr (acc', s') \<Longrightarrow> model s' = model s"
  by (auto simp add: validate_batch_eq split: if_splits)

lemma validate_batch_failure:
  "validate_batch env b acc s = Inl (e, s') \<Longrightarrow> e = ZeroDivisionError \<or> nan_failure e s'"
  by (auto simp add: validate_batch_eq nan_sites_def split: if_splits
      intro!: nan_failure_logged)

lemma validate_loop_ledger:
  "validate_loop env bs acc s = Inl (e, s') \<Longrightarrow> ledger s' = ledger s"
  "validate_loop env bs acc s = Inr (acc', s') \<Longrightarrow> ledger s' = ledger s"
proof (induction bs arbitrary: acc s)
  case Nil
  { case 1 then show ?case by simp }
  { case 2 then show ?case by simp }
next
  case (Cons b bs)
  { case 1
    show ?case
    proof (cases "validate_batch env b acc s")
      case (Inl x)
      with 1 have "validate_batch env b acc s = Inl (e, s')" by simp
      then show ?thesis by (rule validate_batch_ledger)
    next
      case (Inr r)
      obtain a1 s1 where r: "r = (a1, s1)" by (cases r) auto
      with 1 Inr have "validate_loop env bs a1 s1 = Inl (e, s')" by simp
      then have "ledger s' = ledger s1" by (rule Cons.IH(1))
      moreover have "ledger s1 = ledger s" using Inr r validate_batch_ledger(2) by metis
      ultimately show ?thesis by simp
    qed }
  { case 2
    show ?case
    proof (cases "validate_batch env b acc s")
      case (Inl x)
      with 2 show ?thesis by simp
    next
      case (Inr r)
      obtain a1 s1 where r: "r = (a1, s1)" by (cases r) auto
      with 2 Inr have "validate_loop env bs a1 s1 = Inr (acc', s')" by simp
      then have "ledger s' = ledger s1" by (rule Cons.IH(2))
      moreover have "ledger s1 = ledger s" using Inr r validate_batch_ledger(2) by metis
      ultimately show ?thesis by simp
    qed }
qed

lemma validate_loop_failure:
  "validate_loop env bs acc s = Inl (e, s') \<Longrightarrow> e = ZeroDivisionError \<or> nan_failure e s'"
proof (induction bs arbitrary: acc s)
  case Nil
  then show ?case by simp
next
  case (Cons b bs)
  show ?case
  proof (cases "validate_batch env b acc s")
    case (Inl x)
    with Cons.prems have "validate_batch env b acc s = Inl (e, s')" by simp
    then show ?thesis by (rule validate_batch_failure)
  next
    case (Inr r)
    with Cons.prems have "validate_loop env bs (fst r) (snd r) = Inl (e, s')" by simp
    then show ?thesis by (rule Cons.IH)
  qed
qed

lemma ledger_training [simp]:
  "ledger (s\<lparr>model := (model s)\<lparr>training := b\<rparr>\<rparr>) = ledger s"
  by (simp add: ledger_def)

lemma validate_cases:
  obtains (loop_fail) e s' where
      "validate_loop env (val_batches env) val_acc0
         (s\<lparr>model := (model s)\<lparr>training := False\<rparr>\<rparr>) = Inl (e, s')"
      "validate env s = Inl (e, s')"
  | (empty) acc s' where
      "validate_loop env (val_batches env) val_acc0
         (s\<lparr>model := (model s)\<lparr>training := False\<rparr>\<rparr>) = Inr (acc, s')"
      "val_batches env = []"
      "validate env s = Inl (ZeroDivisionError, s')"
  | (ok) acc s' where
      "validate_loop env (val_batches env) val_acc0
         (s\<lparr>model := (model s)\<lparr>training := False\<rparr>\<rparr>) = Inr (acc, s')"
      "val_batches env \<noteq> []"
      "validate env s
         = Inr ((fdiv (total_val_loss acc) (length (val_batches env)),
                 \<lparr>val_loss = fdiv (total_val_loss acc) (length (val_batches env)),
                  val_metrics = averaged (val_sums acc) (length (val_batches env))\<rparr>), s')"
proof (cases "validate_loop env (val_batches env) val_acc0
         (s\<lparr>model := (model s)\<lparr>training := False\<rparr>\<rparr>)")
  case (Inl x)
  obtain e s' where "x = (e, s')" by (cases x) auto
  with Inl loop_fail show ?thesis by (simp add: validate_def Let_def)
next
  case (Inr r)
  obtain acc s' where r: "r = (acc, s')" by (cases r) auto
  show ?thesis
  proof (cases "val_batches env")
    case Nil
    with Inr r empty [of acc s'] show ?thesis
      by (simp add: validate_def Let_def py_truediv_def)
  next
    case (Cons b bs)
    with Inr r ok [of acc s'] show ?thesis
      by (simp add: validate_def Let_def py_truediv_def metrics_div_def)
  qed
qed

lemma validate_ledger:
  "validate env s = Inl (e, s') \<Longrightarrow> ledger s' = ledger s"
  "validate env s = Inr (r, s') \<Longrightarrow> ledger s' = ledger s"
proof -
  assume a: "validate env s = Inl (e, s')"
  show "ledger s' = ledger s"
  proof (cases rule: validate_cases [of env s])
    case (loop_fail e1 s1)
    with a validate_loop_ledger(1) [OF loop_fail(1)] show ?thesis by simp
  next
    case (empty acc s1)
    with a validate_loop_ledger(2) [OF empty(1)] show ?thesis by simp
  next
    case (ok acc s1)
    with a show ?thesis by simp
  qed
next
  assume a: "validate env s = Inr (r, s')"
  show "ledger s' = ledger s"
  proof (cases rule: validate_cases [of env s])
    case (loop_fail e1 s1)
    with a show ?thesis by simp
  next
    case (empty acc s1)
    with a show ?thesis by simp
  next
    case (ok acc s1)
    with a validate_loop_ledger(2) [OF ok(1)] show ?thesis by simp
  qed
qed

lemma validate_failure:
  assumes "validate env s = Inl (e, s')"
  shows "e = ZeroDivisionError \<or> nan_failure e s'"
proof (cases rule: validate_cases [of env s])
  case (loop_fail e1 s1)
  with assms validate_loop_failure [OF loop_fail(1)] show ?thesis by auto
next
  case (empty acc s1)
  with assms show ?thesis by simp
next
  case (ok acc s1)
  with assms show ?thesis by simp
qed

lemma train_one_epoch_cases:
  obtains (loop_fail) e s' where
      "train_loop env (fst (train_batches env (world s))) train_acc0
         (s\<lparr>model := (model s)\<lparr>training := True\<rparr>,
            world := snd (train_batches env (world s))\<rparr>) = Inl (e, s')"
      "train_one_epoch env s = Inl (e, s')"
  | (empty) acc s' where
      "train_loop env (fst (train_batches env (world s))) train_acc0
         (s\<lparr>model := (model s)\<lparr>training := True\<rparr>,
            world := snd (train_batches env (world s))\<rparr>) = Inr (acc, s')"
      "fst (train_batches env (world s)) = []"
      "train_one_epoch env s = Inl (ZeroDivisionError, s')"
  | (ok) acc s' logs where
      "train_loop env (fst (train_batches env (world s))) train_acc0
         (s\<lparr>model := (model s)\<lparr>training := True\<rparr>,
            world := snd (train_batches env (world s))\<rparr>) = Inr (acc, s')"
      "fst (train_batches env (world s)) \<noteq> []"
      "train_logs acc = Some logs"
      "train_one_epoch env s
         = Inr ((fdiv (total_g_loss acc) (length (fst (train_batches env (world s)))),
                 fdiv (total_d_loss acc) (length (fst (train_batches env (world s)))),
                 logs), s')"
proof -
  define bs where "bs = fst (train_batches env (world s))"
  define s1 where "s1 = s\<lparr>model := (model s)\<lparr>training := True\<rparr>,
            world := snd (train_batches env (world s))\<rparr>"
  have unfold: "train_one_epoch env s =
      (case train_loop env bs train_acc0 s1 of
           Inl e \<Rightarrow> Inl e
         | Inr r \<Rightarrow>
            (case py_truediv (total_g_loss (fst r)) (length bs) of
               Inl e \<Rightarrow> Inl (e, snd r)
             | Inr avg_g_loss \<Rightarrow>
                (case py_truediv (total_d_loss (fst r)) (length bs) of
                   Inl e \<Rightarrow> Inl (e, snd r)
                 | Inr avg_d_loss \<Rightarrow>
                    (case train_logs (fst r) of
                       None \<Rightarrow> Inl (UnboundLocalError, snd r)
                     | Some logs \<Rightarrow> Inr ((avg_g_loss, avg_d_loss, logs), snd r)))))"
    by (simp add: train_one_epoch_def Let_def bs_def s1_def cong: sum.case_cong)
  show ?thesis
  proof (cases "train_loop env bs train_acc0 s1")
    case (Inl x)
    obtain e s' where "x = (e, s')" by (cases x) auto
    with Inl loop_fail [of e s'] show ?thesis by (simp add: unfold) (simp add: bs_def s1_def)
  next
    case (Inr r)
    obtain acc s' where r: "r = (acc, s')" by (cases r) auto
    show ?thesis
    proof (cases bs)
      case Nil
      with Inr r empty [of acc s'] show ?thesis
        by (simp add: unfold py_truediv_def) (simp add: bs_def s1_def)
    next
      case (Cons b bs')
      then have ne: "bs \<noteq> []" by simp
      with train_loop_logs [OF Inr [unfolded r]] obtain logs where
        logs: "train_logs acc = Some logs" by auto
      with Inr r Cons ok [of acc s' logs] show ?thesis
        by (simp add: unfold py_truediv_def) (simp add: bs_def s1_def)
    qed
  qed
qed

lemma ledger_start [simp]:
  "ledger (s\<lparr>model := (model s)\<lparr>training := b\<rparr>, world := w\<rparr>) = ledger s"
  by (simp add: ledger_def)

lemma train_one_epoch_ledger:
  "train_one_epoch env s = Inl (e, s') \<Longrightarrow> ledger s' = ledger s"
  "train_one_epoch env s = Inr (r, s') \<Longrightarrow> ledger s' = ledger s"
proof -
  assume a: "train_one_epoch env s = Inl (e, s')"
  show "ledger s' = ledger s"
  proof (cases rule: train_one_epoch_cases [of env s])
    case (loop_fail e1 s1)
    with a train_loop_ledger(1) [OF loop_fail(1)] show ?thesis by simp
  next
    case (empty acc s1)
    with a train_loop_ledger(2) [OF empty(1)] show ?thesis by simp
  next
    case (ok acc s1 logs)
    with a show ?thesis by simp
  qed
next
  assume a: "train_one_epoch env s = Inr (r, s')"
  show "ledger s' = ledger s"
  proof (cases rule: train_one_epoch_cases [of env s])
    case (loop_fail e1 s1)
    with a show ?thesis by simp
  next
    case (empty acc s1)
    with a show ?thesis by simp
  next
    case (ok acc s1 logs)
    with a train_loop_ledger(2) [OF ok(1)] show ?thesis by simp
  qed
qed

lemma train_one_epoch_failure:
  assumes "train_one_epoch env s = Inl (e, s')"
  shows "e = ZeroDivisionError \<or> nan_failure e s'"
proof (cases rule: train_one_epoch_cases [of env s])
  case (loop_fail e1 s1)
  with assms train_loop_failure [OF loop_fail(1)] show ?thesis by auto
next
  case (empty acc s1)
  with assms show ?thesis by simp
next
  case (ok acc s1 logs)
  with assms show ?thesis by simp
qed

lemma nan_failure_ValueError: "nan_failure e s \<Longrightarrow> \<exists>m. e = ValueError m"
  by (auto simp add: nan_failure_def)

lemma demo_empty_epoch:
  "\<exists>s'. train_one_epoch demo_empty_library demo_trainer = Inl (ZeroDivisionError, s')"
  by (simp add: train_one_epoch_def Let_def demo_empty_library_def py_truediv_def)

lemma demo_nan_epoch:
  "\<exists>s'. train_one_epoch demo_nan_library demo_trainer
     = Inl (ValueError ''NaN in g_seg_loss'', s')"
  by (simp add: train_one_epoch_def Let_def demo_nan_library_def train_batch_def
      train_generator_eq gen_loss_t_def generator_loss_def demo_library_simps)

lemma demo_gen_out_any:
  "gen_out demo_library s x
     = (sum_list (map (weights (model s)) (generator_parameters (model s))) * x, world s + 1)"
  by (simp add: gen_out_def demo_library_simps)

lemma train_epoch_eq:
  "train_epoch env epoch s =
     (case train_one_epoch env s of
        Inl e \<Rightarrow> Inl e
      | Inr t \<Rightarrow>
         (case validate env (snd t) of
            Inl e \<Rightarrow> Inl e
          | Inr v \<Rightarrow>
             finish_epoch epoch (fst (fst t)) (fst (snd (fst t))) (snd (snd (fst t)))
               (fst (fst v)) (snd (fst v)) (snd v)))"
  by (simp only: train_epoch_def finish_epoch_def Let_def)

lemma log_to_csv_eq:
  "log_to_csv ep g d v logs tg s =
     (case dict_to_list (csv_fields s) (csv_dict ep g d v logs tg) of
        Inl e \<Rightarrow> Inl (e, s)
      | Inr row \<Rightarrow> Inr (s\<lparr>csv_rows := csv_rows s @ [row]\<rparr>))"
  by (simp only: log_to_csv_def csv_dict_def Let_def)

lemma save_model_eq:
  "save_model p b s =
     s\<lparr>weights_dir := Some (weights_path s),
       saved := saved s @ (last_model_path s, weights (model s))
                  # (if b then [(best_model_path s, weights (model s))] else []),
       logger := logger s @ Log_info (''Saved model checkpoint at '' @ last_model_path s)
                  # (if b then [Log_info (''Saved best model checkpoint at ''
                                   @ best_model_path s)] else [])\<rparr>"
  by (simp add: save_model_def Let_def weights_path_def last_model_path_def best_model_path_def
      save_checkpoint_def save_best_checkpoint_def logger_info_def)

lemma scheduler_step_eq:
  "scheduler_step sch opt =
     (if step_size sch = 0 then Inl ZeroDivisionError
      else Inr (sch\<lparr>last_epoch := last_epoch sch + 1\<rparr>, opt\<lparr>lr := decayed sch (lr opt)\<rparr>))"
  by (simp add: scheduler_step_def Let_def decayed_def)

lemma path_upd [simp]:
  "weights_path (s\<lparr>logger := l\<rparr>) = weights_path s"
  "weights_path (s\<lparr>csv_rows := c\<rparr>) = weights_path s"
  "weights_path (s\<lparr>best_val_loss := b\<rparr>) = weights_path s"
  "last_model_path (s\<lparr>logger := l\<rparr>) = last_model_path s"
  "last_model_path (s\<lparr>csv_rows := c\<rparr>) = last_model_path s"
  "last_model_path (s\<lparr>best_val_loss := b\<rparr>) = last_model_path s"
  "best_model_path (s\<lparr>logger := l\<rparr>) = best_model_path s"
  "best_model_path (s\<lparr>csv_rows := c\<rparr>) = best_model_path s"
  "best_model_path (s\<lparr>best_val_loss := b\<rparr>) = best_model_path s"
  by (simp_all add: weights_path_def last_model_path_def best_model_path_def
      cong: option.case_cong)

lemma best_upd_if:
  "(if c then s\<lparr>best_val_loss := v\<rparr> else s)
     = s\<lparr>best_val_loss := (if c then v else best_val_loss s)\<rparr>"
  by simp

lemma finish_epoch_Inr:
  assumes "finish_epoch k g d tg v logs s2 = Inr s'"
  shows "\<exists>row. dict_to_list (csv_fields s2) (csv_dict (k + 1) g d v logs tg) = Inr row
           \<and> csv_rows s' = csv_rows s2 @ [row]"
    and "csv_fields s' = csv_fields s2"
    and "config s' = config s2"
    and "log_dir s' = log_dir s2"
    and "best_val_loss s' = (if flt v (best_val_loss s2) then v else best_val_loss s2)"
    and "map fst (saved s') = map fst (saved s2) @ last_model_path s2
            # (if flt v (best_val_loss s2) then [best_model_path s2] else [])"
    and "step_size (scheduler_G s2) \<noteq> 0"
    and "step_size (scheduler_D s2) \<noteq> 0"
    and "scheduler_G s' = (scheduler_G s2)\<lparr>last_epoch := last_epoch (scheduler_G s2) + 1\<rparr>"
    and "scheduler_D s' = (scheduler_D s2)\<lparr>last_epoch := last_epoch (scheduler_D s2) + 1\<rparr>"
    and "lr (optimizer_G s') = decayed (scheduler_G s2) (lr (optimizer_G s2))"
    and "lr (optimizer_D s') = decayed (scheduler_D s2) (lr (optimizer_D s2))"
proof -
  from assms obtain row where
    row: "dict_to_list (csv_fields s2) (csv_dict (k + 1) g d v logs tg) = Inr row"
    by (cases "dict_to_list (csv_fields s2) (csv_dict (k + 1) g d v logs tg)")
       (simp_all add: finish_epoch_def log_to_csv_eq Let_def)
  from assms row have g0: "step_size (scheduler_G s2) \<noteq> 0"
    by (auto simp add: finish_epoch_def log_to_csv_eq Let_def best_upd_if save_model_eq
        scheduler_step_eq split: if_splits)
  from assms row g0 have d0: "step_size (scheduler_D s2) \<noteq> 0"
    by (auto simp add: finish_epoch_def log_to_csv_eq Let_def best_upd_if save_model_eq
        scheduler_step_eq split: if_splits)
  from assms row g0 d0 have s': "s' =
     s2\<lparr>logger := logger s2
            @ Log_epoch (k + 1) (num_epochs (config s2)) g d v logs
            # Log_info (''Saved model checkpoint at '' @ last_model_path s2)
            # (if flt v (best_val_loss s2)
               then [Log_info (''Saved best model checkpoint at '' @ best_model_path s2)]
               else []),
        csv_rows := csv_rows s2 @ [row],
        best_val_loss := (if flt v (best_val_loss s2) then v else best_val_loss s2),
        weights_dir := Some (weights_path s2),
        saved := saved s2 @ (last_model_path s2, weights (model s2))
                  # (if flt v (best_val_loss s2)
                     then [(best_model_path s2, weights (model s2))] else []),
        scheduler_G := (scheduler_G s2)\<lparr>last_epoch := last_epoch (scheduler_G s2) + 1\<rparr>,
        optimizer_G := (optimizer_G s2)\<lparr>lr := decayed (scheduler_G s2) (lr (optimizer_G s2))\<rparr>,
        scheduler_D := (scheduler_D s2)\<lparr>last_epoch := last_epoch (scheduler_D s2) + 1\<rparr>,
        optimizer_D := (optimizer_D s2)\<lparr>lr := decayed (scheduler_D s2) (lr (optimizer_D s2))\<rparr>\<rparr>"
    by (auto simp add: finish_epoch_def log_to_csv_eq Let_def best_upd_if save_model_eq
        scheduler_step_eq split: if_splits)
  show "\<exists>row. dict_to_list (csv_fields s2) (csv_dict (k + 1) g d v logs tg) = Inr row
           \<and> csv_rows s' = csv_rows s2 @ [row]"
    using row by (simp add: s')
  show "csv_fields s' = csv_fields s2" "config s' = config s2" "log_dir s' = log_dir s2"
    "best_val_loss s' = (if flt v (best_val_loss s2) then v else best_val_loss s2)"
    "map fst (saved s') = map fst (saved s2) @ last_model_path s2
            # (if flt v (best_val_loss s2) then [best_model_path s2] else [])"
    "scheduler_G s' = (scheduler_G s2)\<lparr>last_epoch := last_epoch (scheduler_G s2) + 1\<rparr>"
    "scheduler_D s' = (scheduler_D s2)\<lparr>last_epoch := last_epoch (scheduler_D s2) + 1\<rparr>"
    "lr (optimizer_G s') = decayed (scheduler_G s2) (lr (optimizer_G s2))"
    "lr (optimizer_D s') = decayed (scheduler_D s2) (lr (optimizer_D s2))"
    by (simp_all add: s')
  show "step_size (scheduler_G s2) \<noteq> 0" "step_size (scheduler_D s2) \<noteq> 0"
    by (rule g0, rule d0)
qed

lemma dict_to_list_fields:
  "dict_to_list fields (csv_dict ep g d v logs tg) = Inr (csv_row ep g d v logs tg)"
  by (simp add: dict_to_list_def fields_def csv_dict_def csv_row_def)

lemma finish_epoch_Inl:
  assumes "finish_epoch k g d tg v logs s2 = Inl (e, s')" and "csv_fields s2 = fields"
  shows "e = ZeroDivisionError"
proof -
  have "(\<exists>x. finish_epoch k g d tg v logs s2 = Inl (ZeroDivisionError, x))
        \<or> (\<exists>y. finish_epoch k g d tg v logs s2 = Inr y)"
    by (simp add: finish_epoch_def log_to_csv_eq assms(2) dict_to_list_fields Let_def
        best_upd_if save_model_eq scheduler_step_eq)
  with assms(1) show ?thesis by auto
qed

lemma ledger_eqD:
  assumes "ledger a = ledger b"
  shows "config a = config b" "scheduler_G a = scheduler_G b" "scheduler_D a = scheduler_D b"
    "best_val_loss a = best_val_loss b" "log_dir a = log_dir b"
    "csv_fields a = csv_fields b" "csv_rows a = csv_rows b" "saved a = saved b"
    "lr (optimizer_G a) = lr (optimizer_G b)" "lr (optimizer_D a) = lr (optimizer_D b)"
    "weights_path a = weights_path b" "last_model_path a = last_model_path b"
    "best_model_path a = best_model_path b"
  using assms
  by (simp_all add: ledger_def weights_path_def last_model_path_def best_model_path_def
      cong: option.case_cong)

lemma train_epoch_InrE:
  assumes "train_epoch env k s = Inr s'"
  obtains g d tg s1 v logs s2 where
    "train_one_epoch env s = Inr ((g, d, tg), s1)"
    "validate env s1 = Inr ((v, logs), s2)"
    "finish_epoch k g d tg v logs s2 = Inr s'"
    "ledger s2 = ledger s"
    "epoch_val_loss env s = Some v"
proof (cases "train_one_epoch env s")
  case (Inl e)
  with assms show ?thesis by (simp add: train_epoch_eq)
next
  case (Inr t)
  obtain g d tg s1 where t: "t = ((g, d, tg), s1)" by (cases t) auto
  show ?thesis
  proof (cases "validate env s1")
    case (Inl e)
    with assms Inr t show ?thesis by (simp add: train_epoch_eq)
  next
    case v: (Inr r)
    obtain v logs s2 where r: "r = ((v, logs), s2)" by (cases r) auto
    from assms Inr t v r have f: "finish_epoch k g d tg v logs s2 = Inr s'"
      by (simp add: train_epoch_eq)
    have "ledger s1 = ledger s"
      using Inr [unfolded t] by (rule train_one_epoch_ledger(2))
    moreover have "ledger s2 = ledger s1"
      using v [unfolded r] by (rule validate_ledger(2))
    ultimately have l: "ledger s2 = ledger s" by simp
    have "epoch_val_loss env s = Some v"
      by (simp add: epoch_val_loss_def Inr t v r)
    with that [of g d tg s1 v logs s2] Inr t v r f l show ?thesis by simp
  qed
qed

lemma train_epoch_failure:
  assumes "train_epoch env k s = Inl (e, s')" and "csv_fields s = fields"
  shows "e = ZeroDivisionError \<or> nan_failure e s'"
proof (cases "train_one_epoch env s")
  case (Inl x)
  with assms(1) have "train_one_epoch env s = Inl (e, s')" by (simp add: train_epoch_eq)
  then show ?thesis by (rule train_one_epoch_failure)
next
  case (Inr t)
  obtain g d tg s1 where t: "t = ((g, d, tg), s1)" by (cases t) auto
  have l1: "ledger s1 = ledger s"
    using Inr [unfolded t] by (rule train_one_epoch_ledger(2))
  show ?thesis
  proof (cases "validate env s1")
    case (Inl x)
    with assms(1) Inr t have "validate env s1 = Inl (e, s')" by (simp add: train_epoch_eq)
    then show ?thesis by (rule validate_failure)
  next
    case v: (Inr r)
    obtain v logs s2 where r: "r = ((v, logs), s2)" by (cases r) auto
    from assms(1) Inr t v r have f: "finish_epoch k g d tg v logs s2 = Inl (e, s')"
      by (simp add: train_epoch_eq)
    have l2: "ledger s2 = ledger s1"
      using v [unfolded r] by (rule validate_ledger(2))
    have "csv_fields s2 = csv_fields s1" using l2 by (rule ledger_eqD)
    also have "\<dots> = csv_fields s" using l1 by (rule ledger_eqD)
    finally have cf: "csv_fields s2 = fields" using assms(2) by simp
    from finish_epoch_Inl [OF f cf] show ?thesis by simp
  qed
qed

text \<open>The effect of a completed epoch on the trainer's bookkeeping.\<close>

lemma train_epoch_step:
  assumes "train_epoch env k s = Inr s'"
  obtains v g d logs tg row where
    "epoch_val_loss env s = Some v"
    "dict_to_list (csv_fields s) (csv_dict (k + 1) g d v logs tg) = Inr row"
    "csv_rows s' = csv_rows s @ [row]"
    "csv_fields s' = csv_fields s" "config s' = config s" "log_dir s' = log_dir s"
    "best_val_loss s' = (if flt v (best_val_loss s) then v else best_val_loss s)"
    "map fst (saved s') = map fst (saved s) @ last_model_path s
        # (if flt v (best_val_loss s) then [best_model_path s] else [])"
    "step_size (scheduler_G s) \<noteq> 0" "step_size (scheduler_D s) \<noteq> 0"
    "scheduler_G s' = (scheduler_G s)\<lparr>last_epoch := last_epoch (scheduler_G s) + 1\<rparr>"
    "scheduler_D s' = (scheduler_D s)\<lparr>last_epoch := last_epoch (scheduler_D s) + 1\<rparr>"
    "lr (optimizer_G s') = decayed (scheduler_G s) (lr (optimizer_G s))"
    "lr (optimizer_D s') = decayed (scheduler_D s) (lr (optimizer_D s))"
  using assms
proof (cases rule: train_epoch_InrE)
  case (1 g d tg s1 v logs s2)
  note f = finish_epoch_Inr [OF 1(3)]
  note l = ledger_eqD [OF 1(4)]
  from f(1) obtain row where
    row: "dict_to_list (csv_fields s2) (csv_dict (k + 1) g d v logs tg) = Inr row"
      "csv_rows s' = csv_rows s2 @ [row]" by blast
  show ?thesis
  proof (rule that [of v g d logs tg row])
    show "epoch_val_loss env s = Some v" by (rule 1(5))
    show "dict_to_list (csv_fields s) (csv_dict (k + 1) g d v logs tg) = Inr row"
      using row(1) l(6) by simp
    show "csv_rows s' = csv_rows s @ [row]" using row(2) l(7) by simp
    show "csv_fields s' = csv_fields s" using f(2) l(6) by simp
    show "config s' = config s" using f(3) l(1) by simp
    show "log_dir s' = log_dir s" using f(4) l(5) by simp
    show "best_val_loss s' = (if flt v (best_val_loss s) then v else best_val_loss s)"
      using f(5) l(4) by simp
    show "map fst (saved s') = map fst (saved s) @ last_model_path s
        # (if flt v (best_val_loss s) then [best_model_path s] else [])"
      using f(6) l(4) l(8) l(12) l(13) by simp
    show "step_size (scheduler_G s) \<noteq> 0" using f(7) l(2) by simp
    show "step_size (scheduler_D s) \<noteq> 0" using f(8) l(3) by simp
    show "scheduler_G s' = (scheduler_G s)\<lparr>last_epoch := last_epoch (scheduler_G s) + 1\<rparr>"
      using f(9) l(2) by simp
    show "scheduler_D s' = (scheduler_D s)\<lparr>last_epoch := last_epoch (scheduler_D s) + 1\<rparr>"
      using f(10) l(3) by simp
    show "lr (optimizer_G s') = decayed (scheduler_G s) (lr (optimizer_G s))"
      using f(11) l(2) l(9) by simp
    show "lr (optimizer_D s') = decayed (scheduler_D s) (lr (optimizer_D s))"
      using f(12) l(3) l(10) by simp
  qed
qed

lemma flt_trans: "flt a b \<Longrightarrow> flt b c \<Longrightarrow> flt a c"
  by (cases a; cases b; cases c) simp_all

lemma flt_not_nan: "flt a b \<Longrightarrow> a \<noteq> NaN \<and> b \<noteq> NaN"
  by (cases a; cases b) simp_all

lemma flt_min:
  assumes "b \<noteq> NaN" and "v \<noteq> NaN"
  shows "flt u (if flt v b then v else b) \<longleftrightarrow> flt u b \<and> flt u v"
  using assms by (cases u; cases b; cases v) auto

lemma epochs_loop_append:
  "epochs_loop env (xs @ ys) s =
     (case epochs_loop env xs s of Inl e \<Rightarrow> Inl e | Inr s1 \<Rightarrow> epochs_loop env ys s1)"
  by (induction xs arbitrary: s) (simp_all split: sum.splits)

lemma epochs_loop_snoc:
  assumes "epochs_loop env (ks @ [k]) s = Inr s'"
  obtains si where "epochs_loop env ks s = Inr si" "train_epoch env (int k) si = Inr s'"
  using assms by (auto simp add: epochs_loop_append split: sum.splits)

lemma epochs_loop_prefix:
  assumes "epochs_loop env (ks @ k # rest) s = Inr sN"
  obtains si si' where "epochs_loop env ks s = Inr si" "train_epoch env (int k) si = Inr si'"
  using assms by (auto simp add: epochs_loop_append split: sum.splits)

lemma decay_exponent:
  fixes r g :: real
  assumes "0 < st"
  shows "(if (int n + 1) mod st \<noteq> 0 then r * g ^ (n div nat st) else r * g ^ (n div nat st) * g)
           = r * g ^ (Suc n div nat st)"
proof -
  from assms obtain m where m: "st = int m" "0 < m"
    by (metis nat_0_less_mult_iff pos_int_cases zero_less_nat_eq mult.right_neutral
        less_numeral_extra(1) nat_int)
  have "(int n + 1) mod int m = int (Suc n mod m)"
    by (simp add: zmod_int add.commute)
  then show ?thesis
    using m by (simp add: div_Suc ac_simps)
qed

lemma epochs_loop_lr_G:
  assumes "epochs_loop env ks s = Inr s'"
    and "last_epoch (scheduler_G s) = 0" and "0 < step_size (scheduler_G s)"
  shows "last_epoch (scheduler_G s') = int (length ks)
     \<and> step_size (scheduler_G s') = step_size (scheduler_G s)
     \<and> gamma (scheduler_G s') = gamma (scheduler_G s)
     \<and> lr (optimizer_G s')
         = lr (optimizer_G s) * gamma (scheduler_G s) ^ (length ks div nat (step_size (scheduler_G s)))"
  using assms(1)
proof (induction ks arbitrary: s' rule: rev_induct)
  case Nil
  then show ?case using assms(2) by simp
next
  case (snoc k ks)
  from snoc.prems obtain si where
    si: "epochs_loop env ks s = Inr si" and ep: "train_epoch env (int k) si = Inr s'"
    by (rule epochs_loop_snoc)
  note ih = snoc.IH [OF si]
  from ep show ?case
  proof (cases rule: train_epoch_step)
    case (1 v g d logs tg row)
    from 1(11) ih have a: "last_epoch (scheduler_G s') = int (length (ks @ [k]))"
      "step_size (scheduler_G s') = step_size (scheduler_G s)"
      "gamma (scheduler_G s') = gamma (scheduler_G s)"
      by simp_all
    have "lr (optimizer_G s') = decayed (scheduler_G si) (lr (optimizer_G si))" by (rule 1(13))
    also have "\<dots> = (if (int (length ks) + 1) mod step_size (scheduler_G s) \<noteq> 0
        then lr (optimizer_G s)
               * gamma (scheduler_G s) ^ (length ks div nat (step_size (scheduler_G s)))
        else lr (optimizer_G s)
               * gamma (scheduler_G s) ^ (length ks div nat (step_size (scheduler_G s)))
               * gamma (scheduler_G s))"
      using ih by (simp add: decayed_def)
    also have "\<dots> = lr (optimizer_G s) * gamma (scheduler_G s)
          ^ (Suc (length ks) div nat (step_size (scheduler_G s)))"
      by (rule decay_exponent [OF assms(3)])
    finally show ?thesis using a by simp
  qed
qed

lemma epochs_loop_lr_D:
  assumes "epochs_loop env ks s = Inr s'"
    and "last_epoch (scheduler_D s) = 0" and "0 < step_size (scheduler_D s)"
  shows "last_epoch (scheduler_D s') = int (length ks)
     \<and> step_size (scheduler_D s') = step_size (scheduler_D s)
     \<and> gamma (scheduler_D s') = gamma (scheduler_D s)
     \<and> lr (optimizer_D s')
         = lr (optimizer_D s) * gamma (scheduler_D s) ^ (length ks div nat (step_size (scheduler_D s)))"
  using assms(1)
proof (induction ks arbitrary: s' rule: rev_induct)
  case Nil
  then show ?case using assms(2) by simp
next
  case (snoc k ks)
  from snoc.prems obtain si where
    si: "epochs_loop env ks s = Inr si" and ep: "train_epoch env (int k) si = Inr s'"
    by (rule epochs_loop_snoc)
  note ih = snoc.IH [OF si]
  from ep show ?case
  proof (cases rule: train_epoch_step)
    case (1 v g d logs tg row)
    from 1(12) ih have a: "last_epoch (scheduler_D s') = int (length (ks @ [k]))"
      "step_size (scheduler_D s') = step_size (scheduler_D s)"
      "gamma (scheduler_D s') = gamma (scheduler_D s)"
      by simp_all
    have "lr (optimizer_D s') = decayed (scheduler_D si) (lr (optimizer_D si))" by (rule 1(14))
    also have "\<dots> = (if (int (length ks) + 1) mod step_size (scheduler_D s) \<noteq> 0
        then lr (optimizer_D s)
               * gamma (scheduler_D s) ^ (length ks div nat (step_size (scheduler_D s)))
        else lr (optimizer_D s)
               * gamma (scheduler_D s) ^ (length ks div nat (step_size (scheduler_D s)))
               * gamma (scheduler_D s))"
      using ih by (simp add: decayed_def)
    also have "\<dots> = lr (optimizer_D s) * gamma (scheduler_D s)
          ^ (Suc (length ks) div nat (step_size (scheduler_D s)))"
      by (rule decay_exponent [OF assms(3)])
    finally show ?thesis using a by simp
  qed
qed

lemma init_simps:
  "config (init m bs cfg nm ts w)
     = (case bs of None \<Rightarrow> cfg | Some b \<Rightarrow> cfg\<lparr>batch_size := b\<rparr>)"
  "best_val_loss (init m bs cfg nm ts w) = PInf"
  "csv_fields (init m bs cfg nm ts w) = fields"
  "csv_rows (init m bs cfg nm ts w) = [writeheader fields]"
  "scheduler_G (init m bs cfg nm ts w) = new_step_lr (lr_decay_step cfg) (lr_decay_gamma cfg)"
  "scheduler_D (init m bs cfg nm ts w) = new_step_lr (lr_decay_step cfg) (lr_decay_gamma cfg)"
  "lr (optimizer_G (init m bs cfg nm ts w)) = lr_generator cfg"
  "lr (optimizer_D (init m bs cfg nm ts w)) = lr_discriminator cfg"
  "param_ids (optimizer_G (init m bs cfg nm ts w)) = generator_parameters m"
  "param_ids (optimizer_D (init m bs cfg nm ts w)) = discriminator_parameters m"
  "saved (init m bs cfg nm ts w) = []"
  "logger (init m bs cfg nm ts w) = []"
  "model (init m bs cfg nm ts w) = m"
  by (simp_all add: init_def setup_logging_def setup_training_def Let_def new_adam_def
      split: option.splits)

lemma logger_info_simps [simp]:
  "csv_rows (logger_info msg s) = csv_rows s"
  "csv_fields (logger_info msg s) = csv_fields s"
  "best_val_loss (logger_info msg s) = best_val_loss s"
  "scheduler_G (logger_info msg s) = scheduler_G s"
  "scheduler_D (logger_info msg s) = scheduler_D s"
  "optimizer_G (logger_info msg s) = optimizer_G s"
  "optimizer_D (logger_info msg s) = optimizer_D s"
  "config (logger_info msg s) = config s"
  "log_dir (logger_info msg s) = log_dir s"
  "saved (logger_info msg s) = saved s"
  by (simp_all add: logger_info_def)

lemma epochs_loop_rows:
  assumes "epochs_loop env ks s = Inr s'" and "csv_fields s = fields"
  shows "\<exists>rows. csv_rows s' = csv_rows s @ rows \<and> length rows = length ks
           \<and> (\<forall>i < length ks. epoch_row (int (ks ! i) + 1) (rows ! i))"
  using assms
proof (induction ks arbitrary: s)
  case Nil
  then show ?case by simp
next
  case (Cons k ks)
  from Cons.prems(1) obtain s1 where
    ep: "train_epoch env (int k) s = Inr s1" and rest: "epochs_loop env ks s1 = Inr s'"
    by (auto split: sum.splits)
  from ep obtain row where
    row: "epoch_row (int k + 1) row" "csv_rows s1 = csv_rows s @ [row]" "csv_fields s1 = fields"
  proof (cases rule: train_epoch_step)
    case (1 v g d logs tg row)
    from 1(2) Cons.prems(2) have "row = csv_row (int k + 1) g d v logs tg"
      by (simp add: dict_to_list_fields)
    then have "epoch_row (int k + 1) row" unfolding epoch_row_def by blast
    with 1(3) 1(4) Cons.prems(2) that show ?thesis by simp
  qed
  from Cons.IH [OF rest row(3)] obtain rows where
    rows: "csv_rows s' = csv_rows s1 @ rows" "length rows = length ks"
      "\<forall>i < length ks. epoch_row (int (ks ! i) + 1) (rows ! i)" by blast
  have "\<forall>i < length (k # ks). epoch_row (int ((k # ks) ! i) + 1) ((row # rows) ! i)"
  proof (intro allI impI)
    fix i assume "i < length (k # ks)"
    then show "epoch_row (int ((k # ks) ! i) + 1) ((row # rows) ! i)"
      using row(1) rows(3) by (cases i) simp_all
  qed
  with rows(1) rows(2) row(2) show ?case
    by (intro exI [of _ "row # rows"]) simp
qed

lemma epochs_loop_best:
  assumes "epochs_loop env ks s = Inr s'" and "best_val_loss s \<noteq> NaN"
    and "NaN \<notin> set (val_history env ks s)"
  shows "best_val_loss s' \<noteq> NaN
     \<and> (\<forall>u. flt u (best_val_loss s')
            \<longleftrightarrow> flt u (best_val_loss s) \<and> (\<forall>w \<in> set (val_history env ks s). flt u w))
     \<and> log_dir s' = log_dir s \<and> config s' = config s"
  using assms
proof (induction ks arbitrary: s)
  case Nil
  then show ?case by simp
next
  case (Cons k ks)
  from Cons.prems(1) obtain s1 where
    ep: "train_epoch env (int k) s = Inr s1" and rest: "epochs_loop env ks s1 = Inr s'"
    by (auto split: sum.splits)
  from ep show ?case
  proof (cases rule: train_epoch_step)
    case (1 v g d logs tg row)
    have h: "val_history env (k # ks) s = v # val_history env ks s1"
      using 1(1) ep by simp
    have "NaN \<notin> set (v # val_history env ks s1)"
      using Cons.prems(3) unfolding h .
    then have v: "v \<noteq> NaN" and nn: "NaN \<notin> set (val_history env ks s1)"
      by auto
    from 1(7) v Cons.prems(2) have b1: "best_val_loss s1 \<noteq> NaN" by simp
    note ih = Cons.IH [OF rest b1 nn]
    have "\<forall>u. flt u (best_val_loss s1) \<longleftrightarrow> flt u (best_val_loss s) \<and> flt u v"
      using flt_min [OF Cons.prems(2) v] 1(7) by simp
    with ih h 1(5) 1(6) show ?thesis by auto
  qed
qed

lemma paths_differ: "best_model_path s \<noteq> last_model_path s"
  by (simp add: best_model_path_def last_model_path_def)

lemma returnsE:
  assumes "returns r"
  obtains a where "r = Inr a"
  using assms by (cases r) (simp_all add: returns_def)

lemma demo_trainer_unfold:
  "demo_trainer =
     \<lparr>config = demo_config, model = demo_model, names = None,
      optimizer_G = new_adam [0] (1 / 10) (1 / 2, 9 / 10),
      optimizer_D = new_adam [1] (1 / 10) (1 / 2, 9 / 10),
      scheduler_G = new_step_lr 1 (1 / 2), scheduler_D = new_step_lr 1 (1 / 2),
      best_val_loss = PInf, log_dir = Some ''ckpt/logs_t0'', weights_dir = None,
      csv_file = ''ckpt/logs_t0/metrics.csv'', csv_fields = fields, world = 0, logger = [],
      csv_rows = [writeheader fields], saved = [], progress = []\<rparr>"
  by (simp add: demo_trainer_def init_def setup_logging_def setup_training_def Let_def
      demo_model_def demo_config_def os_path_join_def)

lemma demo_train_returns: "returns (train demo_library demo_trainer)"
  by code_simp

lemma demo_epochs_returns:
  "returns (epochs_loop demo_library [0 ..< 2]
      (logger_info ''Starting training...'' demo_trainer))"
  by code_simp

lemma demo_two_epochs_returns:
  "returns (epochs_loop demo_library ([0] @ 1 # []) demo_trainer)"
  by code_simp

lemma demo_history: "val_history demo_library [0] demo_trainer = [Fin (19 / 10)]"
  by code_simp

lemma demo_second_val:
  "(case epochs_loop demo_library [0] demo_trainer of
      Inl e \<Rightarrow> None
    | Inr si \<Rightarrow> epoch_val_loss demo_library si) = Some (Fin (37 / 20))"
  by code_simp

lemma demo_val_nan_epoch_returns:
  "returns (train_one_epoch demo_val_nan_library
              (logger_info ''Starting training...'' demo_trainer))"
  by code_simp

lemma train_loop_append:
  "train_loop env (xs @ ys) acc s =
     (case train_loop env xs acc s of
        Inl e \<Rightarrow> Inl e
      | Inr r \<Rightarrow> train_loop env ys (fst r) (snd r))"
  by (induction xs arbitrary: acc s) (simp_all split: sum.splits)

lemma validate_loop_append:
  "validate_loop env (xs @ ys) acc s =
     (case validate_loop env xs acc s of
        Inl e \<Rightarrow> Inl e
      | Inr r \<Rightarrow> validate_loop env ys (fst r) (snd r))"
  by (induction xs arbitrary: acc s) (simp_all split: sum.splits)

lemma raise_generator_batch:
  assumes "train_generator env (to_float32_x env (fst b)) (to_float32_m env (snd b)) s = Inl e"
  shows "train_batch env b acc s = Inl e"
  using assms by (simp add: train_batch_def Let_def)

lemma raise_discriminator_batch:
  assumes "train_generator env (to_float32_x env (fst b)) (to_float32_m env (snd b)) s
             = Inr ((g, fk), s1)"
    and "train_discriminator env (to_float32_x env (fst b)) fk (to_float32_m env (snd b)) s1
             = Inl e"
  shows "train_batch env b acc s = Inl e"
proof -
  from assms(1) have "g \<noteq> NaN" by (rule train_generator_not_nan)
  with assms show ?thesis by (simp add: train_batch_def Let_def check_loss_nan_def)
qed

lemma raise_batch_epoch:
  assumes "fst (train_batches env (world s)) = bs1 @ b # bs2"
    and "train_loop env bs1 train_acc0
           (s\<lparr>model := (model s)\<lparr>training := True\<rparr>,
              world := snd (train_batches env (world s))\<rparr>) = Inr (acc, sb)"
    and "train_batch env b acc sb = Inl e"
  shows "train_one_epoch env s = Inl e"
proof -
  have loop: "train_loop env (fst (train_batches env (world s))) train_acc0
           (s\<lparr>model := (model s)\<lparr>training := True\<rparr>,
              world := snd (train_batches env (world s))\<rparr>) = Inl e"
    unfolding assms(1) train_loop_append using assms(2) assms(3) by simp
  show ?thesis
  proof (cases rule: train_one_epoch_cases [of env s])
    case (loop_fail e1 s1)
    with loop show ?thesis by simp
  next
    case (empty acc1 s1)
    with loop show ?thesis by simp
  next
    case (ok acc1 s1 logs)
    with loop show ?thesis by simp
  qed
qed

lemma raise_batch_validate:
  assumes "val_batches env = bs1 @ b # bs2"
    and "validate_loop env bs1 val_acc0 (s\<lparr>model := (model s)\<lparr>training := False\<rparr>\<rparr>)
           = Inr (acc, sb)"
    and "validate_batch env b acc sb = Inl e"
  shows "validate env s = Inl e"
proof -
  have loop: "validate_loop env (val_batches env) val_acc0
           (s\<lparr>model := (model s)\<lparr>training := False\<rparr>\<rparr>) = Inl e"
    unfolding assms(1) validate_loop_append using assms(2) assms(3) by simp
  show ?thesis
  proof (cases rule: validate_cases [of env s])
    case (loop_fail e1 s1)
    with loop show ?thesis by simp
  next
    case (empty acc1 s1)
    with loop show ?thesis by simp
  next
    case (ok acc1 s1)
    with loop show ?thesis by simp
  qed
qed

lemma raise_epoch_run:
  assumes "epochs_loop env ks s = Inr si" and "train_epoch env (int k) si = Inl e"
  shows "epochs_loop env (ks @ k # rest) s = Inl e"
  using assms by (simp add: epochs_loop_append)

section \<open>The claims\<close>

text \<open>
  C1. A training batch that completes has run the generator step and then, from the state
  the generator step left and on the mask it returned, the discriminator step. The
  generator step changes no weight outside its optimizer's parameters and leaves the
  discriminator's optimizer alone. The mask it hands over still carries the generator's
  graph, but the discriminator step detaches it: that step changes no weight outside its
  optimizer's parameters, no gradient outside the discriminator's parameters, and leaves
  the generator's optimizer alone.
\<close>

theorem adversarial_step_frame:
  assumes "train_batch env b acc s = Inr (acc', s')"
  shows "\<exists>g_loss fake s1 d_loss s2.
      train_generator env (to_float32_x env (fst b)) (to_float32_m env (snd b)) s
        = Inr ((g_loss, fake), s1)
    \<and> train_discriminator env (to_float32_x env (fst b)) fake (to_float32_m env (snd b)) s1
        = Inr (d_loss, s2)
    \<and> model s' = model s2 \<and> optimizer_G s' = optimizer_G s2 \<and> optimizer_D s' = optimizer_D s2
    \<and> optimizer_D s1 = optimizer_D s
    \<and> (\<forall>p. p \<notin> set (param_ids (optimizer_G s)) \<longrightarrow>
           weights (model s1) p = weights (model s) p)
    \<and> leaves fake = generator_parameters (model s)
    \<and> optimizer_G s2 = optimizer_G s1
    \<and> (\<forall>p. p \<notin> set (param_ids (optimizer_D s)) \<longrightarrow>
           weights (model s2) p = weights (model s1) p)
    \<and> (\<forall>p. p \<notin> set (param_ids (optimizer_D s)) \<and> p \<notin> set (discriminator_parameters (model s))
           \<longrightarrow> grads (model s2) p = grads (model s1) p)"
  using assms
proof (cases rule: train_batch_InrE)
  case (1 gl fk s1 dl s2)
  from 1(1) have g: "optimizer_D s1 = optimizer_D s"
    "\<forall>p. p \<notin> set (param_ids (optimizer_G s)) \<longrightarrow> weights (model s1) p = weights (model s) p"
    "leaves fk = generator_parameters (model s)"
    "discriminator_parameters (model s1) = discriminator_parameters (model s)"
    by (auto simp add: train_generator_eq gen_om_weights split: if_splits)
  from 1(2) have d: "optimizer_G s2 = optimizer_G s1"
    "\<forall>p. p \<notin> set (param_ids (optimizer_D s1)) \<longrightarrow> weights (model s2) p = weights (model s1) p"
    "\<forall>p. p \<notin> set (param_ids (optimizer_D s1)) \<and> p \<notin> set (discriminator_parameters (model s1))
        \<longrightarrow> grads (model s2) p = grads (model s1) p"
    by (auto simp add: train_discriminator_eq disc_om_weights disc_om_grads split: if_splits)
  from 1(6) have e: "model s' = model s2" "optimizer_G s' = optimizer_G s2"
    "optimizer_D s' = optimizer_D s2"
    by simp_all
  show ?thesis
    apply (rule exI [of _ gl], rule exI [of _ fk], rule exI [of _ s1],
        rule exI [of _ dl], rule exI [of _ s2])
    using 1(1) 1(2) g d e by simp
qed

theorem adversarial_step_frame_witness:
  "\<exists>acc' s' g_loss fake s1 d_loss s2.
      train_batch demo_library (1, 2) train_acc0 demo_trainer = Inr (acc', s')
    \<and> train_generator demo_library 1 2 demo_trainer = Inr ((g_loss, fake), s1)
    \<and> train_discriminator demo_library 1 fake 2 s1 = Inr (d_loss, s2)
    \<and> model s' = model s2
    \<and> weights (model s1) 1 = weights (model demo_trainer) 1
    \<and> leaves fake = [0]
    \<and> weights (model s2) 0 = weights (model s1) 0
    \<and> grads (model s2) 0 = grads (model s1) 0"
proof -
  from demo_train_batch obtain acc' s' where
    run: "train_batch demo_library (1, 2) train_acc0 demo_trainer = Inr (acc', s')" by blast
  from adversarial_step_frame [OF run] obtain g_loss fake s1 d_loss s2 where
    "train_generator demo_library 1 2 demo_trainer = Inr ((g_loss, fake), s1)"
    "train_discriminator demo_library 1 fake 2 s1 = Inr (d_loss, s2)"
    "model s' = model s2"
    "weights (model s1) 1 = weights (model demo_trainer) 1"
    "leaves fake = [0]"
    "weights (model s2) 0 = weights (model s1) 0"
    "grads (model s2) 0 = grads (model s1) 0"
    by (auto simp add: demo_library_simps demo_trainer_simps demo_eval_simps new_adam_def)
  with run show ?thesis by blast
qed

text \<open>
  C2. Take any epoch of a run that completes, the best loss having started at positive
  infinity and no earlier epoch having a NaN validation loss. The checkpoints written in
  that epoch are \<open>last_model\<close>, always, followed by \<open>best_gan_model\<close> exactly when the
  epoch's validation loss is strictly less than positive infinity and than the validation
  loss of every earlier epoch.
\<close>

theorem best_checkpoint_iff:
  assumes "epochs_loop env (ks @ k # rest) s = Inr sN"
    and "best_val_loss s = PInf"
    and "NaN \<notin> set (val_history env ks s)"
  shows "\<exists>si si' v.
      epochs_loop env ks s = Inr si \<and> train_epoch env (int k) si = Inr si'
    \<and> epoch_val_loss env si = Some v
    \<and> map fst (drop (length (saved si)) (saved si'))
        = last_model_path s
          # (if \<forall>u \<in> set (PInf # val_history env ks s). flt v u then [best_model_path s] else [])
    \<and> last_model_path s \<in> set (map fst (drop (length (saved si)) (saved si')))
    \<and> (best_model_path s \<in> set (map fst (drop (length (saved si)) (saved si')))
         \<longleftrightarrow> (\<forall>u \<in> set (PInf # val_history env ks s). flt v u))"
proof -
  from assms(1) obtain si si' where
    si: "epochs_loop env ks s = Inr si" and ep: "train_epoch env (int k) si = Inr si'"
    by (rule epochs_loop_prefix)
  from assms(2) have b0: "best_val_loss s \<noteq> NaN" by simp
  note inv = epochs_loop_best [OF si b0 assms(3)]
  from inv have paths: "last_model_path si = last_model_path s"
    "best_model_path si = best_model_path s"
    by (simp_all add: last_model_path_def best_model_path_def weights_path_def
        cong: option.case_cong)
  from ep show ?thesis
  proof (cases rule: train_epoch_step)
    case (1 v g d logs tg row)
    have best: "flt v (best_val_loss si) \<longleftrightarrow> (\<forall>u \<in> set (PInf # val_history env ks s). flt v u)"
      using inv assms(2) by simp
    have "map fst (drop (length (saved si)) (saved si'))
        = drop (length (map fst (saved si))) (map fst (saved si'))"
      by (simp add: drop_map)
    also have "\<dots> = last_model_path s
          # (if \<forall>u \<in> set (PInf # val_history env ks s). flt v u then [best_model_path s] else [])"
      unfolding 1(8) using best paths by simp
    finally have w: "map fst (drop (length (saved si)) (saved si'))
        = last_model_path s
          # (if \<forall>u \<in> set (PInf # val_history env ks s). flt v u then [best_model_path s] else [])" .
    show ?thesis
      apply (rule exI [of _ si], rule exI [of _ si'], rule exI [of _ v])
      unfolding w using si ep 1(1) paths_differ [of s] by simp
  qed
qed

theorem best_checkpoint_iff_witness:
  "\<exists>si si'.
      epochs_loop demo_library [0] demo_trainer = Inr si
    \<and> train_epoch demo_library 1 si = Inr si'
    \<and> epoch_val_loss demo_library si = Some (Fin (37 / 20))
    \<and> val_history demo_library [0] demo_trainer = [Fin (19 / 10)]
    \<and> map fst (drop (length (saved si)) (saved si'))
        = [''ckpt/logs_t0/weights/last_model.pth'', ''ckpt/logs_t0/weights/best_gan_model.pth'']"
proof -
  from demo_two_epochs_returns obtain sN where
    run: "epochs_loop demo_library ([0] @ 1 # []) demo_trainer = Inr sN" by (rule returnsE)
  have best: "best_val_loss demo_trainer = PInf" by (simp add: demo_trainer_def init_simps)
  have nonan: "NaN \<notin> set (val_history demo_library [0] demo_trainer)"
    unfolding demo_history by simp
  from best_checkpoint_iff [OF run best nonan] obtain si si' v where
    a: "epochs_loop demo_library [0] demo_trainer = Inr si"
      "train_epoch demo_library (int 1) si = Inr si'"
      "epoch_val_loss demo_library si = Some v"
      "map fst (drop (length (saved si)) (saved si'))
        = last_model_path demo_trainer
          # (if \<forall>u \<in> set (PInf # val_history demo_library [0] demo_trainer). flt v u
             then [best_model_path demo_trainer] else [])"
    by (elim exE conjE) (rule that)
  from demo_second_val a(1) a(3) have v: "v = Fin (37 / 20)" by simp
  have p: "last_model_path demo_trainer = ''ckpt/logs_t0/weights/last_model.pth''"
    "best_model_path demo_trainer = ''ckpt/logs_t0/weights/best_gan_model.pth''"
    by (simp_all add: last_model_path_def best_model_path_def weights_path_def
        demo_trainer_unfold os_path_join_def)
  from a v p show ?thesis unfolding demo_history by simp
qed

text \<open>
  C3. A NaN in the generator's loss, in the discriminator's real loss, in its fake loss or
  in a validation batch's loss is found by the check that follows the computation of that
  loss: the step logs the error and raises \<open>ValueError\<close>. Nothing between the step and
  the caller of \<open>train\<close> catches an error or tries again: whatever a step raises is what
  the batch, the epoch and the run raise, NaN or not, with the state as the raise left it.
\<close>

theorem nan_is_fatal:
  "(check_loss_nan (item (gen_loss_t env data targets s)) \<longrightarrow>
      (\<exists>s'. train_generator env data targets s = Inl (ValueError ''NaN in g_seg_loss'', s')
         \<and> logger s' = logger s @ [Log_error ''NaN detected in g_seg_loss'']))
   \<and> (check_loss_nan (item (d_real_t env data targets s)) \<longrightarrow>
      (\<exists>s'. train_discriminator env data fk targets s = Inl (ValueError ''NaN in d_real_loss'', s')
         \<and> logger s' = logger s @ [Log_error ''NaN detected in d_real_loss'']))
   \<and> (\<not> check_loss_nan (item (d_real_t env data targets s))
        \<and> check_loss_nan (item (d_fake_t env data fk targets s)) \<longrightarrow>
      (\<exists>s'. train_discriminator env data fk targets s = Inl (ValueError ''NaN in d_fake_loss'', s')
         \<and> logger s' = logger s @ [Log_error ''NaN detected in d_fake_loss'']))
   \<and> (check_loss_nan (combined_loss env (fst (gen_out env s (to_float32_x env (fst b))))
                         (to_float32_m env (snd b))) \<longrightarrow>
      (\<exists>s'. validate_batch env b vacc s = Inl (ValueError ''NaN in val_loss'', s')
         \<and> logger s' = logger s @ [Log_error ''NaN detected in val_loss'']))
   \<and> (train_generator env (to_float32_x env (fst b)) (to_float32_m env (snd b)) s = Inl e \<longrightarrow>
        train_batch env b acc s = Inl e)
   \<and> (train_generator env (to_float32_x env (fst b)) (to_float32_m env (snd b)) s
          = Inr ((g, fake), s1)
        \<and> train_discriminator env (to_float32_x env (fst b)) fake (to_float32_m env (snd b)) s1
            = Inl e \<longrightarrow>
        train_batch env b acc s = Inl e)
   \<and> (fst (train_batches env (world s)) = bs1 @ b # bs2
        \<and> train_loop env bs1 train_acc0
            (s\<lparr>model := (model s)\<lparr>training := True\<rparr>,
               world := snd (train_batches env (world s))\<rparr>) = Inr (acc, sb)
        \<and> train_batch env b acc sb = Inl e \<longrightarrow>
        train_one_epoch env s = Inl e)
   \<and> (val_batches env = bs1 @ b # bs2
        \<and> validate_loop env bs1 val_acc0 (s\<lparr>model := (model s)\<lparr>training := False\<rparr>\<rparr>)
            = Inr (vacc, sb)
        \<and> validate_batch env b vacc sb = Inl e \<longrightarrow>
        validate env s = Inl e)
   \<and> (train_one_epoch env s = Inl e \<longrightarrow> train_epoch env (int k) s = Inl e)
   \<and> (train_one_epoch env s = Inr (r, sv) \<and> validate env sv = Inl e \<longrightarrow>
        train_epoch env (int k) s = Inl e)
   \<and> (epochs_loop env ks s0 = Inr s \<and> train_epoch env (int k) s = Inl e \<longrightarrow>
        epochs_loop env (ks @ k # rest) s0 = Inl e)"
proof (intro conjI impI)
  assume "check_loss_nan (item (gen_loss_t env data targets s))"
  then show "\<exists>s'. train_generator env data targets s = Inl (ValueError ''NaN in g_seg_loss'', s')
         \<and> logger s' = logger s @ [Log_error ''NaN detected in g_seg_loss'']"
    by (simp add: train_generator_eq check_loss_nan_def)
next
  assume "check_loss_nan (item (d_real_t env data targets s))"
  then show "\<exists>s'. train_discriminator env data fk targets s
                = Inl (ValueError ''NaN in d_real_loss'', s')
         \<and> logger s' = logger s @ [Log_error ''NaN detected in d_real_loss'']"
    by (simp add: train_discriminator_eq check_loss_nan_def)
next
  assume "\<not> check_loss_nan (item (d_real_t env data targets s))
        \<and> check_loss_nan (item (d_fake_t env data fk targets s))"
  then show "\<exists>s'. train_discriminator env data fk targets s
                = Inl (ValueError ''NaN in d_fake_loss'', s')
         \<and> logger s' = logger s @ [Log_error ''NaN detected in d_fake_loss'']"
    by (simp add: train_discriminator_eq check_loss_nan_def)
next
  assume "check_loss_nan (combined_loss env (fst (gen_out env s (to_float32_x env (fst b))))
                         (to_float32_m env (snd b)))"
  then show "\<exists>s'. validate_batch env b vacc s = Inl (ValueError ''NaN in val_loss'', s')
         \<and> logger s' = logger s @ [Log_error ''NaN detected in val_loss'']"
    by (simp add: validate_batch_eq check_loss_nan_def)
next
  assume "train_generator env (to_float32_x env (fst b)) (to_float32_m env (snd b)) s = Inl e"
  then show "train_batch env b acc s = Inl e" by (rule raise_generator_batch)
next
  assume "train_generator env (to_float32_x env (fst b)) (to_float32_m env (snd b)) s
          = Inr ((g, fake), s1)
        \<and> train_discriminator env (to_float32_x env (fst b)) fake (to_float32_m env (snd b)) s1
            = Inl e"
  then show "train_batch env b acc s = Inl e"
    using raise_discriminator_batch by blast
next
  assume "fst (train_batches env (world s)) = bs1 @ b # bs2
        \<and> train_loop env bs1 train_acc0
            (s\<lparr>model := (model s)\<lparr>training := True\<rparr>,
               world := snd (train_batches env (world s))\<rparr>) = Inr (acc, sb)
        \<and> train_batch env b acc sb = Inl e"
  then show "train_one_epoch env s = Inl e"
    using raise_batch_epoch by blast
next
  assume "val_batches env = bs1 @ b # bs2
        \<and> validate_loop env bs1 val_acc0 (s\<lparr>model := (model s)\<lparr>training := False\<rparr>\<rparr>)
            = Inr (vacc, sb)
        \<and> validate_batch env b vacc sb = Inl e"
  then show "validate env s = Inl e"
    using raise_batch_validate by blast
next
  assume "train_one_epoch env s = Inl e"
  then show "train_epoch env (int k) s = Inl e" by (simp add: train_epoch_eq)
next
  assume "train_one_epoch env s = Inr (r, sv) \<and> validate env sv = Inl e"
  then show "train_epoch env (int k) s = Inl e" by (simp add: train_epoch_eq)
next
  assume "epochs_loop env ks s0 = Inr s \<and> train_epoch env (int k) s = Inl e"
  then show "epochs_loop env (ks @ k # rest) s0 = Inl e"
    using raise_epoch_run by blast
qed

theorem nan_is_fatal_witness:
  "(\<exists>s'. train demo_nan_library demo_trainer = Inl (ValueError ''NaN in g_seg_loss'', s')
       \<and> logger s' = [Log_info ''Starting training...'', Log_error ''NaN detected in g_seg_loss''])
   \<and> (\<exists>s'. train demo_val_nan_library demo_trainer = Inl (ValueError ''NaN in val_loss'', s')
       \<and> last (logger s') = Log_error ''NaN detected in val_loss'')
   \<and> (\<exists>s'. train_batch demo_library (- 1, 2) train_acc0 demo_trainer
              = Inl (ValueError ''NaN in d_fake_loss'', s')
       \<and> logger s' = [Log_error ''NaN detected in d_fake_loss''])
   \<and> (\<exists>s'. train_discriminator demo_library 1 \<lparr>tdata = 1, leaves = [0]\<rparr> (- 1) demo_trainer
              = Inl (ValueError ''NaN in d_real_loss'', s')
       \<and> logger s' = [Log_error ''NaN detected in d_real_loss''])"
proof -
  note detect_g = nan_is_fatal [THEN conjunct1, rule_format]
  note detect_real = nan_is_fatal [THEN conjunct2, THEN conjunct1, rule_format]
  note detect_fake = nan_is_fatal [THEN conjunct2, THEN conjunct2, THEN conjunct1, rule_format]
  note detect_val = nan_is_fatal [THEN conjunct2, THEN conjunct2, THEN conjunct2,
      THEN conjunct1, rule_format]
  note gen_batch = nan_is_fatal [THEN conjunct2, THEN conjunct2, THEN conjunct2,
      THEN conjunct2, THEN conjunct1, rule_format]
  note disc_batch = nan_is_fatal [THEN conjunct2, THEN conjunct2, THEN conjunct2,
      THEN conjunct2, THEN conjunct2, THEN conjunct1, rule_format]
  note batch_epoch = nan_is_fatal [THEN conjunct2, THEN conjunct2, THEN conjunct2,
      THEN conjunct2, THEN conjunct2, THEN conjunct2, THEN conjunct1, rule_format]
  note batch_validate = nan_is_fatal [THEN conjunct2, THEN conjunct2, THEN conjunct2,
      THEN conjunct2, THEN conjunct2, THEN conjunct2, THEN conjunct2, THEN conjunct1, rule_format]
  note epoch_train = nan_is_fatal [THEN conjunct2, THEN conjunct2, THEN conjunct2,
      THEN conjunct2, THEN conjunct2, THEN conjunct2, THEN conjunct2, THEN conjunct2,
      THEN conjunct1, rule_format]
  note validate_train = nan_is_fatal [THEN conjunct2, THEN conjunct2, THEN conjunct2,
      THEN conjunct2, THEN conjunct2, THEN conjunct2, THEN conjunct2, THEN conjunct2,
      THEN conjunct2, THEN conjunct1, rule_format]
  note train_run = nan_is_fatal [THEN conjunct2, THEN conjunct2, THEN conjunct2,
      THEN conjunct2, THEN conjunct2, THEN conjunct2, THEN conjunct2, THEN conjunct2,
      THEN conjunct2, THEN conjunct2, rule_format]
  define s0 where "s0 = logger_info ''Starting training...'' demo_trainer"
  have epochs: "[0 ..< nat (num_epochs (config demo_trainer))] = [] @ 0 # [1]"
    by (simp add: demo_trainer_unfold demo_config_def upt_rec)
  have l0: "logger s0 = [Log_info ''Starting training...'']"
    by (simp add: s0_def logger_info_def demo_trainer_simps)
  txt \<open>a NaN generator loss in the first batch of the first epoch\<close>
  define sb where "sb = s0\<lparr>model := (model s0)\<lparr>training := True\<rparr>,
      world := snd (train_batches demo_nan_library (world s0))\<rparr>"
  have "check_loss_nan (item (gen_loss_t demo_nan_library
          (to_float32_x demo_nan_library (fst (1, - 1 :: real)))
          (to_float32_m demo_nan_library (snd (1 :: real, - 1))) sb))"
    by (simp add: check_loss_nan_def gen_loss_t_def generator_loss_def demo_nan_library_def
        demo_library_simps)
  from detect_g [OF this] obtain s1 where
    g: "train_generator demo_nan_library (to_float32_x demo_nan_library (fst (1, - 1 :: real)))
          (to_float32_m demo_nan_library (snd (1 :: real, - 1))) sb
          = Inl (ValueError ''NaN in g_seg_loss'', s1)"
    and l1: "logger s1 = logger sb @ [Log_error ''NaN detected in g_seg_loss'']"
    by blast
  have b1: "train_batch demo_nan_library (1, - 1) train_acc0 sb
          = Inl (ValueError ''NaN in g_seg_loss'', s1)"
    using g by (rule gen_batch)
  have "fst (train_batches demo_nan_library (world s0)) = [] @ (1, - 1) # []
        \<and> train_loop demo_nan_library [] train_acc0
            (s0\<lparr>model := (model s0)\<lparr>training := True\<rparr>,
               world := snd (train_batches demo_nan_library (world s0))\<rparr>) = Inr (train_acc0, sb)
        \<and> train_batch demo_nan_library (1, - 1) train_acc0 sb
            = Inl (ValueError ''NaN in g_seg_loss'', s1)"
    using b1 by (simp add: sb_def demo_nan_library_def)
  then have e1: "train_one_epoch demo_nan_library s0
      = Inl (ValueError ''NaN in g_seg_loss'', s1)"
    by (rule batch_epoch)
  then have t1: "train_epoch demo_nan_library (int 0) s0
      = Inl (ValueError ''NaN in g_seg_loss'', s1)"
    by (rule epoch_train)
  have "epochs_loop demo_nan_library [] s0 = Inr s0
        \<and> train_epoch demo_nan_library (int 0) s0 = Inl (ValueError ''NaN in g_seg_loss'', s1)"
    using t1 by simp
  then have "epochs_loop demo_nan_library ([] @ 0 # [1]) s0
              = Inl (ValueError ''NaN in g_seg_loss'', s1)"
    by (rule train_run)
  then have "train demo_nan_library demo_trainer = Inl (ValueError ''NaN in g_seg_loss'', s1)"
    unfolding train_def epochs s0_def [symmetric] .
  moreover have "logger s1
      = [Log_info ''Starting training...'', Log_error ''NaN detected in g_seg_loss'']"
    using l1 l0 by (simp add: sb_def)
  ultimately have part1: "\<exists>s'. train demo_nan_library demo_trainer
        = Inl (ValueError ''NaN in g_seg_loss'', s')
       \<and> logger s' = [Log_info ''Starting training...'', Log_error ''NaN detected in g_seg_loss'']"
    by blast
  txt \<open>a NaN loss in the second validation batch of the first epoch\<close>
  from demo_val_nan_epoch_returns obtain a where
    "train_one_epoch demo_val_nan_library s0 = Inr a"
    unfolding s0_def by (rule returnsE)
  then obtain r sv where
    tr: "train_one_epoch demo_val_nan_library s0 = Inr (r, sv)" by (cases a) auto
  have "\<exists>vacc sc. validate_loop demo_val_nan_library [(1, 2)] val_acc0
          (sv\<lparr>model := (model sv)\<lparr>training := False\<rparr>\<rparr>) = Inr (vacc, sc)"
    by (simp add: validate_batch_eq demo_val_nan_library_def demo_library_simps val_acc0_def)
  then obtain vacc sc where
    vl: "validate_loop demo_val_nan_library [(1, 2)] val_acc0
          (sv\<lparr>model := (model sv)\<lparr>training := False\<rparr>\<rparr>) = Inr (vacc, sc)" by blast
  have "check_loss_nan (combined_loss demo_val_nan_library
          (fst (gen_out demo_val_nan_library sc (to_float32_x demo_val_nan_library (fst (1, - 1 :: real)))))
          (to_float32_m demo_val_nan_library (snd (1 :: real, - 1))))"
    by (simp add: check_loss_nan_def demo_val_nan_library_def demo_library_simps)
  from detect_val [OF this] obtain s2 where
    vb: "validate_batch demo_val_nan_library (1, - 1) vacc sc
           = Inl (ValueError ''NaN in val_loss'', s2)"
    and l2: "logger s2 = logger sc @ [Log_error ''NaN detected in val_loss'']"
    by blast
  have "val_batches demo_val_nan_library = [(1, 2)] @ (1, - 1) # []
        \<and> validate_loop demo_val_nan_library [(1, 2)] val_acc0
            (sv\<lparr>model := (model sv)\<lparr>training := False\<rparr>\<rparr>) = Inr (vacc, sc)
        \<and> validate_batch demo_val_nan_library (1, - 1) vacc sc
            = Inl (ValueError ''NaN in val_loss'', s2)"
    using vl vb by (simp add: demo_val_nan_library_def)
  then have v2: "validate demo_val_nan_library sv = Inl (ValueError ''NaN in val_loss'', s2)"
    by (rule batch_validate)
  have "train_one_epoch demo_val_nan_library s0 = Inr (r, sv)
        \<and> validate demo_val_nan_library sv = Inl (ValueError ''NaN in val_loss'', s2)"
    using tr v2 by simp
  then have t2: "train_epoch demo_val_nan_library (int 0) s0
      = Inl (ValueError ''NaN in val_loss'', s2)"
    by (rule validate_train)
  have "epochs_loop demo_val_nan_library [] s0 = Inr s0
        \<and> train_epoch demo_val_nan_library (int 0) s0 = Inl (ValueError ''NaN in val_loss'', s2)"
    using t2 by simp
  then have "epochs_loop demo_val_nan_library ([] @ 0 # [1]) s0
              = Inl (ValueError ''NaN in val_loss'', s2)"
    by (rule train_run)
  then have "train demo_val_nan_library demo_trainer = Inl (ValueError ''NaN in val_loss'', s2)"
    unfolding train_def epochs s0_def [symmetric] .
  with l2 have part2: "\<exists>s'. train demo_val_nan_library demo_trainer
        = Inl (ValueError ''NaN in val_loss'', s')
       \<and> last (logger s') = Log_error ''NaN detected in val_loss''"
    by simp
  txt \<open>a NaN fake loss in the discriminator step of a batch\<close>
  define t1 where "t1 = demo_trainer\<lparr>model := snd (gen_om demo_library (- 1) 2 demo_trainer),
      world := snd (gen_out demo_library demo_trainer (- 1)),
      optimizer_G := fst (gen_om demo_library (- 1) 2 demo_trainer)\<rparr>"
  have gen: "train_generator demo_library (- 1) 2 demo_trainer
      = Inr ((Fin 3, \<lparr>tdata = - 1, leaves = [0]\<rparr>), t1)"
    by (simp add: train_generator_eq gen_loss_t_def generator_loss_def demo_gen_out_any
        demo_library_simps demo_trainer_simps demo_eval_simps t1_def)
  have "\<not> check_loss_nan (item (d_real_t demo_library (- 1) 2 t1))
      \<and> check_loss_nan (item (d_fake_t demo_library (- 1) \<lparr>tdata = - 1, leaves = [0]\<rparr> 2 t1))"
    by (simp add: t1_def check_loss_nan_def d_real_t_def d_fake_t_def discriminator_loss_def
        disc_real_def disc_fake_def disc_out_def demo_library_simps gen_om_weights
        demo_trainer_simps demo_eval_simps new_adam_def)
  from detect_fake [OF this] obtain s3 where
    d: "train_discriminator demo_library (- 1) \<lparr>tdata = - 1, leaves = [0]\<rparr> 2 t1
          = Inl (ValueError ''NaN in d_fake_loss'', s3)"
    and l3: "logger s3 = logger t1 @ [Log_error ''NaN detected in d_fake_loss'']"
    by blast
  have "train_generator demo_library (to_float32_x demo_library (fst (- 1, 2 :: real)))
          (to_float32_m demo_library (snd (- 1 :: real, 2))) demo_trainer
          = Inr ((Fin 3, \<lparr>tdata = - 1, leaves = [0]\<rparr>), t1)
        \<and> train_discriminator demo_library (to_float32_x demo_library (fst (- 1, 2 :: real)))
            \<lparr>tdata = - 1, leaves = [0]\<rparr> (to_float32_m demo_library (snd (- 1 :: real, 2))) t1
            = Inl (ValueError ''NaN in d_fake_loss'', s3)"
    using gen d by (simp add: demo_library_simps)
  then have "train_batch demo_library (- 1, 2) train_acc0 demo_trainer
          = Inl (ValueError ''NaN in d_fake_loss'', s3)"
    by (rule disc_batch)
  moreover have "logger s3 = [Log_error ''NaN detected in d_fake_loss'']"
    using l3 by (simp add: t1_def demo_trainer_simps)
  ultimately have part3: "\<exists>s'. train_batch demo_library (- 1, 2) train_acc0 demo_trainer
              = Inl (ValueError ''NaN in d_fake_loss'', s')
       \<and> logger s' = [Log_error ''NaN detected in d_fake_loss'']"
    by blast
  txt \<open>a NaN real loss in the discriminator step\<close>
  have "check_loss_nan (item (d_real_t demo_library 1 (- 1) demo_trainer))"
    by (simp add: check_loss_nan_def d_real_t_def discriminator_loss_def demo_disc_real)
       (simp add: demo_library_simps)
  from detect_real [OF this, of "\<lparr>tdata = 1, leaves = [0]\<rparr>"]
  have part4: "\<exists>s'. train_discriminator demo_library 1 \<lparr>tdata = 1, leaves = [0]\<rparr>
                (- 1) demo_trainer = Inl (ValueError ''NaN in d_real_loss'', s')
       \<and> logger s' = [Log_error ''NaN detected in d_real_loss'']"
    by (simp add: demo_trainer_simps)
  from part1 part2 part3 part4 show ?thesis by (intro conjI)
qed

text \<open>
  C4. When the generator's segmentation loss is NaN, the generator step raises before
  \<open>backward\<close> and the optimizer step: it returns the error and leaves every weight and
  both optimizers as they were. The same holds for the discriminator step when its real
  loss is NaN, and when its real loss is a number and its fake loss is NaN.
\<close>

theorem nan_loss_no_update:
  "(check_loss_nan (item (gen_loss_t env data targets s)) \<longrightarrow>
      (\<exists>s'. train_generator env data targets s = Inl (ValueError ''NaN in g_seg_loss'', s')
         \<and> weights (model s') = weights (model s)
         \<and> optimizer_G s' = optimizer_G s \<and> optimizer_D s' = optimizer_D s))
   \<and> (check_loss_nan (item (d_real_t env data targets s)) \<longrightarrow>
      (\<exists>s'. train_discriminator env data fk targets s = Inl (ValueError ''NaN in d_real_loss'', s')
         \<and> weights (model s') = weights (model s)
         \<and> optimizer_G s' = optimizer_G s \<and> optimizer_D s' = optimizer_D s))
   \<and> (\<not> check_loss_nan (item (d_real_t env data targets s))
        \<and> check_loss_nan (item (d_fake_t env data fk targets s)) \<longrightarrow>
      (\<exists>s'. train_discriminator env data fk targets s = Inl (ValueError ''NaN in d_fake_loss'', s')
         \<and> weights (model s') = weights (model s)
         \<and> optimizer_G s' = optimizer_G s \<and> optimizer_D s' = optimizer_D s))"
  by (simp add: train_generator_eq train_discriminator_eq check_loss_nan_def)

theorem nan_loss_no_update_witness:
  "check_loss_nan (item (gen_loss_t demo_library 1 (- 1) demo_trainer))
   \<and> check_loss_nan (item (d_real_t demo_library 1 (- 1) demo_trainer))
   \<and> \<not> check_loss_nan (item (d_real_t demo_library 1 2 demo_trainer))
   \<and> check_loss_nan (item (d_fake_t demo_library 1 \<lparr>tdata = - 1, leaves = [0]\<rparr> 2 demo_trainer))
   \<and> (\<exists>s'. train_generator demo_library 1 (- 1) demo_trainer
              = Inl (ValueError ''NaN in g_seg_loss'', s')
          \<and> weights (model s') = weights (model demo_trainer))
   \<and> (\<exists>s'. train_discriminator demo_library 1 \<lparr>tdata = - 1, leaves = [0]\<rparr> (- 1) demo_trainer
              = Inl (ValueError ''NaN in d_real_loss'', s')
          \<and> weights (model s') = weights (model demo_trainer))
   \<and> (\<exists>s'. train_discriminator demo_library 1 \<lparr>tdata = - 1, leaves = [0]\<rparr> 2 demo_trainer
              = Inl (ValueError ''NaN in d_fake_loss'', s')
          \<and> weights (model s') = weights (model demo_trainer))"
proof -
  have a: "check_loss_nan (item (gen_loss_t demo_library 1 (- 1) demo_trainer))"
    by (simp add: check_loss_nan_def gen_loss_t_def generator_loss_def demo_gen_out)
       (simp add: demo_library_simps)
  have b: "check_loss_nan (item (d_real_t demo_library 1 (- 1) demo_trainer))"
    by (simp add: check_loss_nan_def d_real_t_def discriminator_loss_def demo_disc_real)
       (simp add: demo_library_simps)
  have c: "\<not> check_loss_nan (item (d_real_t demo_library 1 2 demo_trainer))"
    by (simp add: check_loss_nan_def d_real_t_def discriminator_loss_def demo_disc_real)
       (simp add: demo_library_simps)
  have d: "check_loss_nan
      (item (d_fake_t demo_library 1 \<lparr>tdata = - 1, leaves = [0]\<rparr> 2 demo_trainer))"
    by (simp add: check_loss_nan_def d_fake_t_def discriminator_loss_def demo_disc_fake)
       (simp add: demo_library_simps)
  from a b c d
    nan_loss_no_update [of demo_library 1 "- 1" demo_trainer "\<lparr>tdata = - 1, leaves = [0]\<rparr>"]
    nan_loss_no_update [of demo_library 1 2 demo_trainer "\<lparr>tdata = - 1, leaves = [0]\<rparr>"]
  show ?thesis by blast
qed

text \<open>
  C5, as stated, at the header row that the constructor writes: it has sixteen columns,
  not the seventeen of the spec's wording, and three of them are losses: there is one
  validation loss and no discriminator loss for the validation phase.
\<close>

theorem metrics_file_columns_counterexample:
  "length (csv_rows demo_trainer ! 0) \<noteq> spec_column_count
   \<and> filter is_loss_column (csv_fields demo_trainer)
       = [''train_g_loss'', ''train_d_loss'', ''val_loss'']"
  by (simp add: demo_trainer_def init_simps writeheader_def fields_def spec_column_count_def
      is_loss_column_def)

text \<open>
  C5, as amended. After a run of N epochs that completes, the metrics file holds N + 1
  rows: the header written at construction, with the sixteen column names epoch, the
  training generator and discriminator losses, the one validation loss, the six
  validation metrics and the six training metrics; and for each epoch one row with the
  epoch's number and fifteen values in the order of the header.
\<close>

theorem metrics_file_rows:
  assumes "train env (init m bs cfg nm ts w :: ('o, 'r) trainer) = Inr s'"
  shows "length (csv_rows s') = nat (num_epochs cfg) + 1
     \<and> csv_rows s' ! 0
         = map Cell_str
             [''epoch'', ''train_g_loss'', ''train_d_loss'', ''val_loss'', ''mean_iou'',
              ''recall'', ''precision'', ''accuracy'', ''dice'', ''f2'', ''train_mean_iou'',
              ''train_precision'', ''train_recall'', ''train_f2'', ''train_accuracy'',
              ''train_dice'']
     \<and> (\<forall>i < nat (num_epochs cfg). epoch_row (int i + 1) (csv_rows s' ! Suc i))"
proof -
  define s0 :: "('o, 'r) trainer" where "s0 = logger_info ''Starting training...'' (init m bs cfg nm ts w)"
  have n: "num_epochs (config (init m bs cfg nm ts w)) = num_epochs cfg"
    by (simp add: init_simps split: option.splits)
  from assms have run: "epochs_loop env [0 ..< nat (num_epochs cfg)] s0 = Inr s'"
    by (simp add: train_def n s0_def)
  have f: "csv_fields s0 = fields" by (simp add: s0_def init_simps)
  from epochs_loop_rows [OF run f] obtain rows where
    rows: "csv_rows s' = csv_rows s0 @ rows" "length rows = nat (num_epochs cfg)"
      "\<forall>i < nat (num_epochs cfg). epoch_row (int ([0 ..< nat (num_epochs cfg)] ! i) + 1) (rows ! i)"
    by auto
  have h: "csv_rows s0 = [writeheader fields]" by (simp add: s0_def init_simps)
  have "\<forall>i < nat (num_epochs cfg). epoch_row (int i + 1) (csv_rows s' ! Suc i)"
    using rows(1) rows(3) h by simp
  moreover have "length (csv_rows s') = nat (num_epochs cfg) + 1"
    using rows(1) rows(2) h by simp
  moreover have "csv_rows s' ! 0 = map Cell_str fields"
    using rows(1) h by (simp add: writeheader_def)
  ultimately show ?thesis by (simp add: fields_def)
qed

theorem metrics_file_rows_witness:
  "\<exists>s'. train demo_library demo_trainer = Inr s'
      \<and> length (csv_rows s') = 3
      \<and> length (csv_rows s' ! 0) = 16
      \<and> epoch_row 1 (csv_rows s' ! 1) \<and> epoch_row 2 (csv_rows s' ! 2)"
proof -
  from demo_train_returns obtain s' where
    run: "train demo_library demo_trainer = Inr s'" by (rule returnsE)
  from metrics_file_rows [OF run [unfolded demo_trainer_def]]
  have "length (csv_rows s') = 3" "length (csv_rows s' ! 0) = 16"
    "\<forall>i < 2. epoch_row (int i + 1) (csv_rows s' ! Suc i)"
    by (simp_all add: demo_config_def)
  then have "length (csv_rows s') = 3" "length (csv_rows s' ! 0) = 16"
    "epoch_row 1 (csv_rows s' ! 1)" "epoch_row 2 (csv_rows s' ! 2)"
    by (auto simp add: numeral_2_eq_2)
  with run show ?thesis by blast
qed

text \<open>
  C6, at two validation batches whose losses are 1 and 3: after the second batch the bar
  shows 3 / 2, the loss of that batch divided by the batch index, where the cumulative
  loss divided by the batch index is (1 + 3) / 2 = 2.
\<close>

theorem validate_shows_last_loss_over_index:
  "\<exists>r s'. validate demo_library demo_trainer = Inr (r, s')
     \<and> fst r = fdiv (fadd (Fin 1) (Fin 3)) 2
     \<and> map shown_val_loss (progress s') = [Some (fdiv (Fin 1) 1), Some (fdiv (Fin 3) 2)]
     \<and> fdiv (Fin 3) 2 \<noteq> fdiv (fadd (Fin 1) (Fin 3)) 2"
  by (simp add: validate_def Let_def validate_batch_eq demo_gen_out_any val_acc0_def
      demo_trainer_simps demo_eval_simps demo_library_simps py_truediv_def metrics_div_def
      shown_val_loss_def)

text \<open>
  C7. After \<open>k\<close> epochs of a run each scheduler has stepped \<open>k\<close> times, and for a
  positive decay period each optimizer's learning rate is its configured initial rate
  times \<open>gamma\<close> to the power \<open>k div step_size\<close>.
\<close>

theorem step_decay_schedule:
  assumes "epochs_loop env [0 ..< k]
             (logger_info ''Starting training...''
                (init m bs cfg nm ts w :: ('o, 'r) trainer)) = Inr s'"
    and "0 < lr_decay_step cfg"
  shows "last_epoch (scheduler_G s') = int k \<and> last_epoch (scheduler_D s') = int k
     \<and> lr (optimizer_G s') = lr_generator cfg * lr_decay_gamma cfg ^ (k div nat (lr_decay_step cfg))
     \<and> lr (optimizer_D s')
         = lr_discriminator cfg * lr_decay_gamma cfg ^ (k div nat (lr_decay_step cfg))"
proof -
  define s0 :: "('o, 'r) trainer" where "s0 = logger_info ''Starting training...'' (init m bs cfg nm ts w)"
  have g: "last_epoch (scheduler_G s0) = 0" "0 < step_size (scheduler_G s0)"
    "step_size (scheduler_G s0) = lr_decay_step cfg" "gamma (scheduler_G s0) = lr_decay_gamma cfg"
    "lr (optimizer_G s0) = lr_generator cfg"
    using assms(2) by (simp_all add: s0_def init_simps new_step_lr_def)
  have d: "last_epoch (scheduler_D s0) = 0" "0 < step_size (scheduler_D s0)"
    "step_size (scheduler_D s0) = lr_decay_step cfg" "gamma (scheduler_D s0) = lr_decay_gamma cfg"
    "lr (optimizer_D s0) = lr_discriminator cfg"
    using assms(2) by (simp_all add: s0_def init_simps new_step_lr_def)
  from assms(1) have run: "epochs_loop env [0 ..< k] s0 = Inr s'" by (simp add: s0_def)
  from epochs_loop_lr_G [OF run g(1) g(2)] epochs_loop_lr_D [OF run d(1) d(2)]
  show ?thesis by (simp add: g d)
qed

theorem step_decay_schedule_witness:
  "\<exists>s'. epochs_loop demo_library [0 ..< 2]
           (logger_info ''Starting training...'' demo_trainer) = Inr s'
      \<and> last_epoch (scheduler_G s') = 2 \<and> last_epoch (scheduler_D s') = 2
      \<and> lr (optimizer_G s') = 1 / 40 \<and> lr (optimizer_D s') = 1 / 40"
proof -
  from demo_epochs_returns obtain s' where
    run: "epochs_loop demo_library [0 ..< 2]
            (logger_info ''Starting training...'' demo_trainer) = Inr s'" by (rule returnsE)
  have pos: "0 < lr_decay_step demo_config" by (simp add: demo_config_def)
  from step_decay_schedule [OF run [unfolded demo_trainer_def] pos]
  have "last_epoch (scheduler_G s') = 2 \<and> last_epoch (scheduler_D s') = 2
      \<and> lr (optimizer_G s') = 1 / 40 \<and> lr (optimizer_D s') = 1 / 40"
    by (simp add: demo_config_def power2_eq_square)
  with run show ?thesis by blast
qed

text \<open>
  C8. A discriminator step that returns has scored the real pair and then the pair of the
  image and the fake mask's data, has taken the binary cross-entropy of the real score
  against ones times 0.9 and of the fake score against zeros, and returns the sum of the
  two losses. The sum is what is backpropagated: each discriminator parameter of the
  optimizer ends the step with the sum of the two derivatives as its gradient.
\<close>

theorem discriminator_loss_sum:
  assumes "train_discriminator env data fk targets s = Inr (d_loss, s')"
  shows "let ws = map (weights (model s)) (discriminator_parameters (model s));
             real_score = disc_forward env (training (model s)) ws (world s) data targets;
             fake_score = disc_forward env (training (model s)) ws (snd real_score) data (tdata fk);
             real_labels = mul_scalar env (ones_like env (fst real_score)) (9 / 10);
             fake_labels = zeros_like env (fst fake_score);
             d_real_loss = bce_loss env (fst real_score) real_labels;
             d_fake_loss = bce_loss env (fst fake_score) fake_labels
         in d_loss = fadd d_real_loss d_fake_loss
            \<and> (\<forall>p. p \<in> set (param_ids (optimizer_D s))
                    \<and> p \<in> set (discriminator_parameters (model s)) \<longrightarrow>
                  grads (model s') p
                    = Some (bce_loss_grad env (fst real_score) real_labels p
                            + bce_loss_grad env (fst fake_score) fake_labels p))"
proof -
  have r: "disc_real env data targets s
      = disc_forward env (training (model s))
          (map (weights (model s)) (discriminator_parameters (model s))) (world s) data targets"
    by (simp add: disc_real_def disc_out_def)
  have f: "disc_fake env data fk targets s
      = disc_forward env (training (model s))
          (map (weights (model s)) (discriminator_parameters (model s)))
          (snd (disc_real env data targets s)) data (tdata fk)"
    by (simp add: disc_fake_def disc_out_def)
  from assms have l: "d_loss = fadd (item (d_real_t env data targets s))
                                (item (d_fake_t env data fk targets s))"
    and m: "model s' = snd (disc_om env data fk targets s)"
    by (auto simp add: train_discriminator_eq split: if_splits)
  show ?thesis
    unfolding Let_def l m
    by (simp add: disc_om_grads_in) (simp add: d_real_t_def d_fake_t_def discriminator_loss_def r f)
qed

theorem discriminator_loss_sum_witness:
  "\<exists>s'. train_discriminator demo_library 1 \<lparr>tdata = 1, leaves = [0]\<rparr> 2 demo_trainer
           = Inr (Fin (21 / 10), s')
       \<and> Fin (21 / 10) = fadd (Fin (11 / 10)) (Fin 1)
       \<and> grads (model s') 1 = Some 2"
proof -
  from demo_train_discriminator obtain s' where
    run: "train_discriminator demo_library 1 \<lparr>tdata = 1, leaves = [0]\<rparr> 2 demo_trainer
            = Inr (Fin (21 / 10), s')" ..
  from discriminator_loss_sum [OF run] have "grads (model s') 1 = Some 2"
    by (simp add: Let_def demo_trainer_simps demo_eval_simps demo_library_simps new_adam_def)
  with run show ?thesis by auto
qed

text \<open>
  C10, as stated, at a loader of one batch and a disabled progress bar: the counter
  \<open>pbar.n\<close> is still zero after \<open>pbar.update(1)\<close>, and the division of the metric sums by
  it raises.
\<close>

theorem disabled_bar_divides_by_zero:
  "fst (train_batches demo_disabled_library (world demo_trainer)) = [(1, 2)]
   \<and> tqdm_disable demo_disabled_library
   \<and> raised (train_one_epoch demo_disabled_library demo_trainer) = Some ZeroDivisionError"
  by code_simp

text \<open>
  C10, as amended. With an empty training loader the epoch fails on the division of the
  loss totals by a loader length of zero, which comes before the return that would read
  the unbound \<open>logs\<close>; it returns no losses. With a non-empty loader and an enabled
  progress bar no division fails and \<open>logs\<close> is bound: an epoch that fails has failed on
  neither.
\<close>

theorem train_one_epoch_needs_batches_and_bar:
  "(fst (train_batches env (world s)) = [] \<longrightarrow>
      (\<exists>s'. train_one_epoch env s = Inl (ZeroDivisionError, s')))
   \<and> (fst (train_batches env (world s)) \<noteq> [] \<and> \<not> tqdm_disable env \<longrightarrow>
      (\<forall>e s'. train_one_epoch env s = Inl (e, s') \<longrightarrow>
         e \<noteq> ZeroDivisionError \<and> e \<noteq> UnboundLocalError))"
proof (cases rule: train_one_epoch_cases [of env s])
  case (loop_fail e1 s1)
  have ne: "fst (train_batches env (world s)) \<noteq> []"
  proof
    assume "fst (train_batches env (world s)) = []"
    with loop_fail(1) show False by simp
  qed
  have "e1 \<noteq> ZeroDivisionError \<and> e1 \<noteq> UnboundLocalError" if on: "\<not> tqdm_disable env"
    using train_loop_enabled_failure [OF loop_fail(1) on]
    by (auto dest: nan_failure_ValueError)
  with ne loop_fail(2) show ?thesis by simp
next
  case (empty acc s1)
  then show ?thesis by simp
next
  case (ok acc s1 logs)
  then show ?thesis by simp
qed

theorem train_one_epoch_needs_batches_and_bar_witness:
  "fst (train_batches demo_empty_library (world demo_trainer)) = []
   \<and> (\<exists>s'. train_one_epoch demo_empty_library demo_trainer = Inl (ZeroDivisionError, s'))
   \<and> fst (train_batches demo_nan_library (world demo_trainer)) \<noteq> []
   \<and> \<not> tqdm_disable demo_nan_library
   \<and> (\<exists>e s'. train_one_epoch demo_nan_library demo_trainer = Inl (e, s')
         \<and> e \<noteq> ZeroDivisionError \<and> e \<noteq> UnboundLocalError)"
proof -
  have a: "fst (train_batches demo_empty_library (world demo_trainer)) = []"
    by (simp add: demo_empty_library_def)
  have b: "fst (train_batches demo_nan_library (world demo_trainer)) \<noteq> []"
    "\<not> tqdm_disable demo_nan_library"
    by (simp_all add: demo_nan_library_def demo_library_simps)
  from demo_nan_epoch obtain s' where
    c: "train_one_epoch demo_nan_library demo_trainer
          = Inl (ValueError ''NaN in g_seg_loss'', s')" ..
  from a train_one_epoch_needs_batches_and_bar [of demo_empty_library demo_trainer]
  have "\<exists>s'. train_one_epoch demo_empty_library demo_trainer = Inl (ZeroDivisionError, s')"
    by simp
  moreover from b c train_one_epoch_needs_batches_and_bar [of demo_nan_library demo_trainer]
  have "\<exists>e s'. train_one_epoch demo_nan_library demo_trainer = Inl (e, s')
         \<and> e \<noteq> ZeroDivisionError \<and> e \<noteq> UnboundLocalError"
    by blast
  ultimately show ?thesis using a b by simp
qed

end
